theory Spec2Isabelle
  imports Main "HOL-Library.AList" "HOL-Library.Sublist"
begin

section \<open>Python values, exceptions and configuration\<close>

text \<open>
  Exceptions the update command can raise. The string of \<open>LookupError\<close> and
  \<open>UserWarning\<close> names the raise site. \<open>IndexError\<close> and \<open>KeyError\<close> are subclasses
  of Python's \<open>LookupError\<close>; \<open>is_LookupError\<close> is \<open>isinstance(e, LookupError)\<close>.
\<close>

datatype exn =
    LookupError string
  | UserWarning string
  | TypeError
  | AttributeError
  | KeyError
  | IndexError
  | ValueError
  | FileNotFoundError
  | IsADirectoryError

fun is_LookupError :: "exn \<Rightarrow> bool" where
  "is_LookupError (LookupError _) = True"
| "is_LookupError KeyError = True"
| "is_LookupError IndexError = True"
| "is_LookupError _ = False"

text \<open>
  A value of the \<open>update:\<close> block of \<open>.nf-core.yml\<close> as the YAML loader returns it:
  null, a boolean, a string, a number, a list or a mapping (in insertion order).
\<close>

datatype cfg =
    CNone
  | CBool bool
  | CStr string
  | CNum int
  | CList "cfg list"
  | CDict "(string \<times> cfg) list"

text \<open>\<open>d.get(k, default)\<close>: only a mapping has the method.\<close>

fun py_get :: "cfg \<Rightarrow> string \<Rightarrow> cfg \<Rightarrow> exn + cfg" where
  "py_get (CDict kvs) k dflt = Inr (case map_of kvs k of None \<Rightarrow> dflt | Some v \<Rightarrow> v)"
| "py_get _ k dflt = Inl AttributeError"

text \<open>\<open>d[k]\<close> with a string key.\<close>

fun py_getitem :: "cfg \<Rightarrow> string \<Rightarrow> exn + cfg" where
  "py_getitem (CDict kvs) k = (case map_of kvs k of None \<Rightarrow> Inl KeyError | Some v \<Rightarrow> Inr v)"
| "py_getitem _ k = Inl TypeError"

text \<open>
  \<open>k in d\<close> with a string \<open>k\<close>: key membership in a mapping, substring test in a
  string, element test in a list, \<open>TypeError\<close> otherwise.
\<close>

fun py_contains :: "string \<Rightarrow> cfg \<Rightarrow> exn + bool" where
  "py_contains k (CDict kvs) = Inr (k \<in> fst ` set kvs)"
| "py_contains k (CStr s) = Inr (sublist k s)"
| "py_contains k (CList xs) = Inr (CStr k \<in> set xs)"
| "py_contains k _ = Inl TypeError"

section \<open>Registry source and persisted state\<close>

text \<open>A \<open>ModulesRepo\<close> object: the fields the update command reads.\<close>

record modules_repo =
  remote_url :: string
  branch :: string
  repo_path :: string

text \<open>
  Paths are structural: a directory is the list of its parts below the pipeline
  directory, a file is a directory and a file name. The content of a directory maps
  file names to file texts.
\<close>

type_synonym dirpath = "string list"
type_synonym filepath = "dirpath \<times> string"
type_synonym dir_content = "string \<rightharpoonup> string"

text \<open>\<open>p.relative_to(d)\<close> for a file \<open>p\<close>: \<open>ValueError\<close> unless \<open>p\<close> lies in \<open>d\<close>.\<close>

definition relative_to :: "filepath \<Rightarrow> dirpath \<Rightarrow> exn + string" where
  "relative_to p d = (if fst p = d then Inr (snd p) else Inl ValueError)"

record comp_record =
  git_sha :: string
  rec_branch :: string
  installed_by :: "string list"

type_synonym mj_components = "(string \<times> comp_record) list"
type_synonym mj_dirs = "(string \<times> mj_components) list"
type_synonym mj_types = "(string \<times> mj_dirs) list"
type_synonym mj_repos = "(string \<times> mj_types) list"

text \<open>
  The content of \<open>modules.json\<close>: \<open>repos\<close> is
  repo url \<rightarrow> component type \<rightarrow> install directory \<rightarrow> component name \<rightarrow> record,
  each level a dictionary in insertion order. The patch accessors of the source take
  no component type, so the patch association is keyed by
  (component name, repo url, install directory).
\<close>

record modules_json =
  repos :: mj_repos
  patches :: "((string \<times> string \<times> string) \<times> filepath) list"

text \<open>
  Modelled from the spec: \<open>ModulesJson.get_all_components\<close>, which is not in this file
  (\<open>allComponents(type) \<rightarrow> mapping repoUrl \<rightarrow> set(dir, name)\<close>). A repo with no
  component of the type has no key.
\<close>

definition get_all_components :: "modules_json \<Rightarrow> string \<Rightarrow> (string \<times> (string \<times> string) list) list" where
  "get_all_components j ctype =
     concat (map (\<lambda>(url, types).
        case map_of types ctype of
          None \<Rightarrow> []
        | Some dirs \<Rightarrow> [(url, concat (map (\<lambda>(d, comps). map (\<lambda>(c, r). (d, c)) comps) dirs))])
       (repos j))"

text \<open>Modelled from the spec: the record of one installed component, if any.\<close>

definition mj_lookup :: "modules_json \<Rightarrow> string \<Rightarrow> string \<Rightarrow> string \<Rightarrow> string \<Rightarrow> comp_record option" where
  "mj_lookup j url ctype dir name =
     (case map_of (repos j) url of None \<Rightarrow> None | Some types \<Rightarrow>
       (case map_of types ctype of None \<Rightarrow> None | Some dirs \<Rightarrow>
         (case map_of dirs dir of None \<Rightarrow> None | Some comps \<Rightarrow> map_of comps name)))"

text \<open>
  Modelled from the spec: \<open>getVersion\<close>, \<open>getBranch\<close> and \<open>getPatchPath\<close> of Persisted
  State, with the argument order of the source's calls. A component with no record
  has no version; asking for its branch is a \<open>LookupError\<close>.
\<close>

definition get_component_version :: "modules_json \<Rightarrow> string \<Rightarrow> string \<Rightarrow> string \<Rightarrow> string \<Rightarrow> string option" where
  "get_component_version j ctype name url dir = map_option git_sha (mj_lookup j url ctype dir name)"

definition get_component_branch :: "modules_json \<Rightarrow> string \<Rightarrow> string \<Rightarrow> string \<Rightarrow> string \<Rightarrow> exn + string" where
  "get_component_branch j ctype name url dir =
     (case mj_lookup j url ctype dir name of
        None \<Rightarrow> Inl (LookupError ''no branch information'')
      | Some r \<Rightarrow> Inr (rec_branch r))"

definition get_patch_fn :: "modules_json \<Rightarrow> string \<Rightarrow> string \<Rightarrow> string \<Rightarrow> filepath option" where
  "get_patch_fn j name url dir = map_of (patches j) (name, url, dir)"

text \<open>
  Modelled from the spec: \<open>ModulesJson.update\<close> in memory (\<open>update(type, repo, name,
  version, patchInfo, flush)\<close>): the record of the component under the repo's url, the
  type and the repo's install directory gets the new version and the repo's branch,
  and the marker is added to its installed-by list when it is not there.
\<close>

definition al_modify :: "'k \<Rightarrow> ('v option \<Rightarrow> 'v) \<Rightarrow> ('k \<times> 'v) list \<Rightarrow> ('k \<times> 'v) list" where
  "al_modify k f al = AList.update k (f (map_of al k)) al"

definition new_record :: "modules_repo \<Rightarrow> string \<Rightarrow> string \<Rightarrow> comp_record option \<Rightarrow> comp_record" where
  "new_record repo version marker old =
     \<lparr> git_sha = version, rec_branch = branch repo,
       installed_by = (case old of
           None \<Rightarrow> [marker]
         | Some r \<Rightarrow> if marker \<in> set (installed_by r) then installed_by r
                     else installed_by r @ [marker]) \<rparr>"

definition mj_update_mem :: "modules_json \<Rightarrow> string \<Rightarrow> modules_repo \<Rightarrow> string \<Rightarrow> string \<Rightarrow> string \<Rightarrow> modules_json" where
  "mj_update_mem j ctype repo name version marker =
     j \<lparr> repos :=
       al_modify (remote_url repo) (\<lambda>types.
         al_modify ctype (\<lambda>dirs.
           al_modify (repo_path repo) (\<lambda>comps.
             al_modify name (new_record repo version marker)
               (case comps of None \<Rightarrow> [] | Some c \<Rightarrow> c))
             (case dirs of None \<Rightarrow> [] | Some d \<Rightarrow> d))
           (case types of None \<Rightarrow> [] | Some t \<Rightarrow> t))
         (repos j) \<rparr>"

section \<open>The command's state\<close>

datatype level = Debug | Info | Warning | Error

text \<open>
  One constructor per logging call of the source, with the values its f-string
  interpolates. An entry of the skipped-components summary is either
  \<open>dir/component\<close> or, as line 440 writes it, \<open>dir/\<close> followed by the whole list.
\<close>

datatype skip_item =
    SkipComp string string
  | SkipCompList string "(string \<times> string) list"

datatype msg =
    ShaNotFound string string
  | AlreadyInstalledAt dirpath string
  | AlreadyUpToDate dirpath
  | PatchedSuccessfully dirpath
  | FailedToPatch dirpath
  | ComparedPatched
  | ComparedUnpatched
  | WritingDiffFile dirpath string
  | Tip string
  | ApplyFailedPatchesManually
  | UpdatesComplete
  | ConfigOverridesSha string
  | FoundConfigEntry string
  | UpdatingTo string
  | BranchMismatch string string string string
  | SkippingRepos string "string list"
  | SkippingComponents string "skip_item list"
  | OverridingRepos string "string list"
  | OverridingComponents string "string list"
  | RepoLookupFailed exn
  | SkippingIn string string
  | ComponentNotExist string string
  | ShaNotOnBranch string string string string
  | RemovingOld string
  | UpdatingComponent string string
  | UpdatingComponentTo string string string
  | FoundPatch string string
  | FailedToApplyPatch string string
  | WritingPatchedFiles
  | RegeneratingPatch
  | OverwritingInstalled

text \<open>The answers the user gives to the interactive prompts, in order.\<close>

datatype answer = AConfirm bool | AText string | ASelect nat

text \<open>\<open>self.save_diff_fn\<close>: unset, a boolean from the mode prompt, or a file name.\<close>

datatype save_diff = SNone | SBool bool | SPath string

fun truthy_save_diff :: "save_diff \<Rightarrow> bool" where
  "truthy_save_diff SNone = False"
| "truthy_save_diff (SBool b) = b"
| "truthy_save_diff (SPath p) = (p \<noteq> [])"

datatype fnode = RegularFile "string list" | Directory

text \<open>
  The state the command reads and writes: the fields of \<open>self\<close>, the in-memory and
  the on-disk content of \<open>modules.json\<close>, the installed component directories on
  disk, the other files of the working directory (a regular file is the list of the
  chunks written to it), the log and the pending answers of the user.
\<close>

record world =
  component_type :: string
  component :: "string option"
  force :: bool
  prompt :: bool
  sha :: "string option"
  update_all :: bool
  show_diff :: "bool option"
  save_diff_fn :: save_diff
  update_config :: cfg
  modules_repo :: modules_repo
  repo_type :: string
  valid_directory :: bool
  mj :: modules_json
  mj_disk :: modules_json
  installed :: "dirpath \<rightharpoonup> dir_content"
  files :: "string \<rightharpoonup> fnode"
  logs :: "(level \<times> msg) list"
  answers :: "answer list"

text \<open>
  The collaborators that are not in this file, as functions: the registry source
  (\<open>ModulesRepo\<close>), the fetch of \<open>install_component_files\<close> (\<open>None\<close> when it returns
  False), the diff and patch engine (\<open>ModulesDiffer\<close>; \<open>differ_apply\<close> is \<open>None\<close> when
  \<open>try_apply_patch\<close> raises LookupError), and the order in which Python iterates a set.
\<close>

record env =
  sha_exists_on_branch :: "modules_repo \<Rightarrow> string \<Rightarrow> bool"
  get_avail_components :: "modules_repo \<Rightarrow> string \<Rightarrow> string list"
  component_exists :: "modules_repo \<Rightarrow> string \<Rightarrow> string \<Rightarrow> bool"
  get_latest_component_version :: "modules_repo \<Rightarrow> string \<Rightarrow> string \<Rightarrow> string"
  install_component_files :: "string \<Rightarrow> string \<Rightarrow> string \<Rightarrow> modules_repo \<Rightarrow> dir_content option"
  repo_reachable :: "string \<Rightarrow> string \<Rightarrow> bool"
  repo_path_of :: "string \<Rightarrow> string"
  differ_apply :: "string \<Rightarrow> dir_content \<Rightarrow> dir_content option"
  differ_diff :: "dir_content \<Rightarrow> dir_content \<Rightarrow> string"
  json_diff :: "modules_json \<Rightarrow> modules_json \<Rightarrow> string"
  set_order :: "string list \<Rightarrow> string list"

text \<open>
  A call returns a value or raises, and leaves a state either way; \<open>None\<close> is a call
  that never returns: it waits for an answer the user does not give, or a nested
  update runs out of fuel.
\<close>

type_synonym 'a res = "((exn + 'a) \<times> world) option"

definition ret :: "'a \<Rightarrow> world \<Rightarrow> 'a res" where
  "ret x w = Some (Inr x, w)"

definition raise :: "exn \<Rightarrow> world \<Rightarrow> 'a res" where
  "raise e w = Some (Inl e, w)"

definition bnd :: "(world \<Rightarrow> 'a res) \<Rightarrow> ('a \<Rightarrow> world \<Rightarrow> 'b res) \<Rightarrow> world \<Rightarrow> 'b res" where
  "bnd m f w =
     (case m w of
        None \<Rightarrow> None
      | Some (Inl e, w') \<Rightarrow> Some (Inl e, w')
      | Some (Inr x, w') \<Rightarrow> f x w')"

definition lift :: "exn + 'a \<Rightarrow> world \<Rightarrow> 'a res" where
  "lift r w = (case r of Inl e \<Rightarrow> Some (Inl e, w) | Inr x \<Rightarrow> Some (Inr x, w))"

definition log_msg :: "level \<Rightarrow> msg \<Rightarrow> world \<Rightarrow> unit res" where
  "log_msg l m w = Some (Inr (), w \<lparr> logs := logs w @ [(l, m)] \<rparr>)"

definition modify :: "(world \<Rightarrow> world) \<Rightarrow> world \<Rightarrow> unit res" where
  "modify f w = Some (Inr (), f w)"

definition ask_confirm :: "world \<Rightarrow> bool res" where
  "ask_confirm w =
     (case answers w of AConfirm b # rest \<Rightarrow> Some (Inr b, w \<lparr> answers := rest \<rparr>) | _ \<Rightarrow> None)"

definition ask_text :: "world \<Rightarrow> string res" where
  "ask_text w =
     (case answers w of AText s # rest \<Rightarrow> Some (Inr s, w \<lparr> answers := rest \<rparr>) | _ \<Rightarrow> None)"

definition ask_select :: "world \<Rightarrow> nat res" where
  "ask_select w =
     (case answers w of ASelect n # rest \<Rightarrow> Some (Inr n, w \<lparr> answers := rest \<rparr>) | _ \<Rightarrow> None)"

text \<open>
  Modelled from the spec: \<open>ModulesJson.update\<close> with its \<open>write_file\<close> flag: the
  in-memory state is advanced, and dumped to disk whole when the flag is set.
\<close>

definition modules_json_update :: "string \<Rightarrow> modules_repo \<Rightarrow> string \<Rightarrow> string \<Rightarrow> string \<Rightarrow> bool \<Rightarrow> world \<Rightarrow> unit res" where
  "modules_json_update ctype repo name version marker write_file w =
     (let j = mj_update_mem (mj w) ctype repo name version marker
      in Some (Inr (), w \<lparr> mj := j, mj_disk := (if write_file then j else mj_disk w) \<rparr>))"

text \<open>Modelled from the spec: \<open>ModulesJson.add_patch_entry\<close> (\<open>addPatchEntry(name, repo, dir, patchPath, flush)\<close>).\<close>

definition add_patch_entry :: "string \<Rightarrow> string \<Rightarrow> string \<Rightarrow> filepath \<Rightarrow> bool \<Rightarrow> world \<Rightarrow> unit res" where
  "add_patch_entry name url dir patch_relpath write_file w =
     (let j = (mj w) \<lparr> patches := AList.update (name, url, dir) patch_relpath (patches (mj w)) \<rparr>
      in Some (Inr (), w \<lparr> mj := j, mj_disk := (if write_file then j else mj_disk w) \<rparr>))"

section \<open>Selection planner: one component\<close>

text \<open>An entry of the update plan: \<open>(modules_repo, component, sha, patch_relpath)\<close>.\<close>

type_synonym plan_entry = "modules_repo \<times> string \<times> string option \<times> filepath option"

text \<open>
  Lines 314 to 336 of \<open>get_single_component_info\<close>: the sha the entry carries,
  \<open>self.sha\<close> unless \<open>.nf-core.yml\<close> has a string for the component.
\<close>

definition single_config_sha :: "string \<Rightarrow> string \<Rightarrow> world \<Rightarrow> (string option) res" where
  "single_config_sha cname install_dir =
     (\<lambda>w. bnd (lift (py_get (update_config w) (remote_url (modules_repo w)) (CDict []))) (\<lambda>a.
          bnd (lift (py_get a install_dir (CDict []))) (\<lambda>b.
          bnd (lift (py_contains cname b)) (\<lambda>present.
            if present then
              bnd (lift (py_getitem (update_config w) (remote_url (modules_repo w)))) (\<lambda>x.
              bnd (lift (py_getitem x install_dir)) (\<lambda>y.
              bnd (lift (py_get y cname CNone)) (\<lambda>config_entry.
                if config_entry \<noteq> CNone \<and> config_entry \<noteq> CBool True then
                  (if config_entry = CBool False then
                     raise (UserWarning ''update entry in .nf-core.yml is set to False'')
                   else case config_entry of
                     CStr s \<Rightarrow>
                       bnd (if sha w \<noteq> None then log_msg Warning (ConfigOverridesSha cname)
                            else log_msg Info (FoundConfigEntry cname)) (\<lambda>_.
                       bnd (log_msg Info (UpdatingTo s)) (\<lambda>_.
                       ret (Some s)))
                   | _ \<Rightarrow> raise (UserWarning ''update entry in .nf-core.yml is of wrong type''))
                else ret (sha w))))
            else ret (sha w)))) w)"

text \<open>
  Lines 338 to 351: when the component was installed from another branch than the
  active one, the user may switch the shared registry source to that branch.
\<close>

definition check_update_branch :: "string \<Rightarrow> string \<Rightarrow> world \<Rightarrow> unit res" where
  "check_update_branch cname install_dir =
     (\<lambda>w. bnd (lift (get_component_branch (mj w) (component_type w) cname
                       (remote_url (modules_repo w)) install_dir)) (\<lambda>current_branch.
          if current_branch \<noteq> branch (modules_repo w) then
            bnd (log_msg Warning (BranchMismatch install_dir cname (branch (modules_repo w)) current_branch)) (\<lambda>_.
            bnd ask_confirm (\<lambda>switch.
              if switch then modify (\<lambda>w1. w1 \<lparr> modules_repo := (modules_repo w1) \<lparr> branch := current_branch \<rparr> \<rparr>)
              else ret ()))
          else ret ()) w)"

text \<open>The names offered and accepted: a component outside \<open>nf-core\<close> carries its directory.\<close>

definition component_choices :: "(string \<times> string) list \<Rightarrow> string list" where
  "component_choices comps = map (\<lambda>(d, c). if d = ''nf-core'' then c else d @ ''/'' @ c) comps"

text \<open>Line 299: the directory of the first installed component of that name.\<close>

definition install_dirs_of :: "(string \<times> string) list \<Rightarrow> string \<Rightarrow> string list" where
  "install_dirs_of comps cname = map fst (filter (\<lambda>(d, m). cname = m) comps)"

definition get_single_component_info :: "env \<Rightarrow> string option \<Rightarrow> world \<Rightarrow> plan_entry res" where
  "get_single_component_info E component0 =
     (\<lambda>w. let repo_url = remote_url (modules_repo w);
              all_comps = get_all_components (mj w) (component_type w)
          in case map_of all_comps repo_url of
               None \<Rightarrow> raise TypeError w
             | Some comps \<Rightarrow>
                 if repo_url \<notin> fst ` set all_comps then
                   raise (LookupError ''nothing installed from the repo'') w
                 else
                   bnd (case component0 of None \<Rightarrow> ask_text | Some c \<Rightarrow> ret c) (\<lambda>cname.
                     case install_dirs_of comps cname of
                       [] \<Rightarrow> raise IndexError
                     | install_dir # _ \<Rightarrow>
                         if cname \<notin> set (component_choices comps) then
                           raise (LookupError ''not installed in pipeline'')
                         else if cname \<noteq> [] \<and>
                                 cname \<notin> set (get_avail_components E (modules_repo w) (component_type w)) then
                           raise (LookupError ''not found in list of available components'')
                         else
                           bnd (single_config_sha cname install_dir) (\<lambda>sha1.
                           bnd (check_update_branch cname install_dir) (\<lambda>_.
                           (\<lambda>w1. ret (modules_repo w1, cname, sha1,
                                       get_patch_fn (mj w1) cname (remote_url (modules_repo w1)) install_dir) w1)))) w)"

text \<open>
  Lines 157 to 164 of \<open>update\<close>: the version an entry is updated to. The prompt of
  \<open>prompt_component_version_sha\<close> is answered with a sha.
\<close>

definition resolve_version :: "env \<Rightarrow> modules_repo \<Rightarrow> string \<Rightarrow> string option \<Rightarrow> world \<Rightarrow> string res" where
  "resolve_version E repo cname sha1 =
     (\<lambda>w. case sha1 of
            Some s \<Rightarrow> ret s w
          | None \<Rightarrow>
              if prompt w then ask_text w
              else ret (get_latest_component_version E repo cname (component_type w)) w)"


text \<open>
  The entry of the Override Configuration for one component:
  \<open>update_config[repo url][install directory][component]\<close>, when the levels above it
  are mappings.
\<close>

definition override_entry :: "cfg \<Rightarrow> string \<Rightarrow> string \<Rightarrow> string \<Rightarrow> cfg option" where
  "override_entry c url dir cname =
     (case c of
        CDict a \<Rightarrow>
          (case map_of a url of
             Some (CDict b) \<Rightarrow>
               (case map_of b dir of
                  Some (CDict d) \<Rightarrow> map_of d cname
                | _ \<Rightarrow> None)
           | _ \<Rightarrow> None)
      | _ \<Rightarrow> None)"

section \<open>Example inputs\<close>

text \<open>
  A pipeline with the module \<open>fastqc\<close> and the subworkflow \<open>bam_sort\<close> of one
  registry, \<open>fastqc\<close> installed by \<open>bam_sort\<close>, and a registry that has both.
\<close>

definition ex_repo :: modules_repo where
  "ex_repo = \<lparr> remote_url = ''nfcore.git'', branch = ''master'', repo_path = ''nf-core'' \<rparr>"

definition ex_json :: modules_json where
  "ex_json = \<lparr> repos =
       [(''nfcore.git'',
          [(''modules'', [(''nf-core'',
              [(''fastqc'', \<lparr> git_sha = ''old111'', rec_branch = ''master'',
                               installed_by = [''modules'', ''bam_sort''] \<rparr>)])]),
           (''subworkflows'', [(''nf-core'',
              [(''bam_sort'', \<lparr> git_sha = ''old222'', rec_branch = ''master'',
                                 installed_by = [''subworkflows''] \<rparr>)])])])],
     patches = [] \<rparr>"

definition ex_world :: world where
  "ex_world = \<lparr> component_type = ''modules'', component = None, force = False,
       prompt = False, sha = None, update_all = False, show_diff = Some False,
       save_diff_fn = SNone, update_config = CDict [], modules_repo = ex_repo,
       repo_type = ''pipeline'', valid_directory = True, mj = ex_json, mj_disk = ex_json,
       installed = [[''modules'', ''nf-core'', ''fastqc''] \<mapsto> [''main.nf'' \<mapsto> ''v1'']],
       files = Map.empty, logs = [], answers = [] \<rparr>"

definition ex_env :: env where
  "ex_env = \<lparr> sha_exists_on_branch = (\<lambda>r s. True),
       get_avail_components = (\<lambda>r t. [''fastqc'', ''bam_sort'']),
       component_exists = (\<lambda>r c t. True),
       get_latest_component_version = (\<lambda>r c t. ''new999''),
       install_component_files = (\<lambda>t c v r. Some [''main.nf'' \<mapsto> ''v2'']),
       repo_reachable = (\<lambda>u b. True),
       repo_path_of = (\<lambda>u. ''nf-core''),
       differ_apply = (\<lambda>p d. None),
       differ_diff = (\<lambda>a b. ''diff''),
       json_diff = (\<lambda>a b. ''jsondiff''),
       set_order = remdups \<rparr>"

text \<open>The configuration \<open>{repo: {nf-core: {fastqc: entry}}}\<close>.\<close>

definition ex_config :: "cfg \<Rightarrow> cfg" where
  "ex_config entry = CDict [(''nfcore.git'', CDict [(''nf-core'', CDict [(''fastqc'', entry)])])]"

section \<open>Selection planner: all components\<close>

definition bindE :: "exn + 'a \<Rightarrow> ('a \<Rightarrow> exn + 'b) \<Rightarrow> exn + 'b" where
  "bindE r f = (case r of Inl e \<Rightarrow> Inl e | Inr x \<Rightarrow> f x)"

text \<open>A \<open>for\<close> loop whose body may raise.\<close>

fun foldE :: "('a \<Rightarrow> 's \<Rightarrow> exn + 's) \<Rightarrow> 'a list \<Rightarrow> 's \<Rightarrow> exn + 's" where
  "foldE f [] s = Inr s"
| "foldE f (x # xs) s = (case f x s of Inl e \<Rightarrow> Inl e | Inr s' \<Rightarrow> foldE f xs s')"

type_synonym comp_target = "string \<times> string option \<times> string"
type_synonym components_info = "(string \<times> (string \<times> comp_target list) list) list"

text \<open>The local variables of the first loop of \<open>get_all_components_info\<close>.\<close>

record plan_acc =
  components_info :: components_info
  skipped_repos :: "string list"
  skipped_components :: "skip_item list"
  overridden_repos :: "string list"
  overridden_components :: "string list"

definition empty_acc :: plan_acc where
  "empty_acc = \<lparr> components_info = [], skipped_repos = [], skipped_components = [],
                  overridden_repos = [], overridden_components = [] \<rparr>"

text \<open>\<open>components_info[repo_name] = {}\<close>\<close>

definition reset_repo :: "string \<Rightarrow> plan_acc \<Rightarrow> plan_acc" where
  "reset_repo repo_name acc =
     acc \<lparr> components_info := AList.update repo_name [] (components_info acc) \<rparr>"

text \<open>
  The \<open>try: components_info[repo_name][component_dir].append(...)\<close> with its
  \<open>except KeyError\<close> that starts the list: the component, its target sha and the
  branch it was installed from.
\<close>

definition add_component ::
  "modules_json \<Rightarrow> string \<Rightarrow> string \<Rightarrow> string \<Rightarrow> string \<Rightarrow> string option \<Rightarrow> plan_acc \<Rightarrow> exn + plan_acc" where
  "add_component j ctype repo_name component_dir cname sha1 acc =
     bindE (get_component_branch j ctype cname repo_name component_dir) (\<lambda>br.
       case map_of (components_info acc) repo_name of
         None \<Rightarrow> Inl KeyError
       | Some dirs \<Rightarrow>
           Inr (acc \<lparr> components_info :=
                  AList.update repo_name
                    (AList.update component_dir
                       ((case map_of dirs component_dir of None \<Rightarrow> [] | Some xs \<Rightarrow> xs)
                          @ [(cname, sha1, br)]) dirs)
                    (components_info acc) \<rparr>))"

text \<open>
  Lines 384 to 405 and 501 to 523: every component of the repo, with one sha.
\<close>

definition plan_whole_repo ::
  "modules_json \<Rightarrow> string \<Rightarrow> string \<Rightarrow> (string \<times> string) list \<Rightarrow> string option \<Rightarrow> plan_acc \<Rightarrow> exn + plan_acc" where
  "plan_whole_repo j ctype repo_name components sha1 acc =
     foldE (\<lambda>(component_dir, cname). add_component j ctype repo_name component_dir cname sha1)
       components (reset_repo repo_name acc)"

text \<open>
  Lines 446 to 498: one component under a directory whose entry is a mapping. The
  loop variable is the component's own directory.
\<close>

definition plan_component ::
  "modules_json \<Rightarrow> string \<Rightarrow> string option \<Rightarrow> string \<Rightarrow> (string \<times> cfg) list \<Rightarrow> string \<times> string \<Rightarrow> plan_acc \<Rightarrow> exn + plan_acc" where
  "plan_component j ctype self_sha repo_name dir_config =
     (\<lambda>(component_dir, cname) acc.
        case map_of dir_config cname of
          None \<Rightarrow> add_component j ctype repo_name component_dir cname self_sha acc
        | Some e \<Rightarrow>
            (case e of
               CBool True \<Rightarrow> add_component j ctype repo_name component_dir cname self_sha acc
             | CStr custom_sha \<Rightarrow>
                 bindE (add_component j ctype repo_name component_dir cname (Some custom_sha) acc)
                   (\<lambda>acc1. Inr (if self_sha \<noteq> None
                                then acc1 \<lparr> overridden_components := overridden_components acc1 @ [cname] \<rparr>
                                else acc1))
             | CBool False \<Rightarrow>
                 Inr (acc \<lparr> skipped_components :=
                             skipped_components acc @ [SkipComp component_dir cname] \<rparr>)
             | _ \<Rightarrow> Inl (UserWarning ''component has an invalid entry in .nf-core.yml'')))"

text \<open>
  Lines 409 to 498: one install directory of a repo whose entry is a mapping. The
  entry of the directory is read with \<open>[component_dir]\<close>; a string, \<open>False\<close> and a
  mapping have a branch each, and there is no \<open>else\<close>.
\<close>

definition plan_dir ::
  "modules_json \<Rightarrow> string \<Rightarrow> string option \<Rightarrow> string \<Rightarrow> cfg \<Rightarrow> (string \<times> string) list \<Rightarrow> string \<Rightarrow> plan_acc \<Rightarrow> exn + plan_acc" where
  "plan_dir j ctype self_sha repo_name repo_entry components component_dir acc =
     bindE (py_getitem repo_entry component_dir) (\<lambda>e.
       case e of
         CStr custom_sha \<Rightarrow>
           bindE (foldE (\<lambda>(dir, cname) a.
                           if component_dir = dir
                           then add_component j ctype repo_name component_dir cname (Some custom_sha) a
                           else Inr a)
                    components (reset_repo repo_name acc))
             (\<lambda>acc1. Inr (if self_sha \<noteq> None
                          then acc1 \<lparr> overridden_repos := overridden_repos acc1 @ [repo_name] \<rparr>
                          else acc1))
       | CBool False \<Rightarrow>
           foldE (\<lambda>(dir, cname) a.
                    Inr (if dir = component_dir
                         then a \<lparr> skipped_components :=
                                    skipped_components a @ [SkipCompList component_dir components] \<rparr>
                         else a))
             components acc
       | CDict dir_config \<Rightarrow>
           foldE (plan_component j ctype self_sha repo_name dir_config)
             components (reset_repo repo_name acc)
       | _ \<Rightarrow> Inr acc)"

text \<open>Lines 382 to 529: one repo of Persisted State.\<close>

definition plan_repo ::
  "env \<Rightarrow> modules_json \<Rightarrow> string \<Rightarrow> string option \<Rightarrow> cfg \<Rightarrow> string \<times> (string \<times> string) list \<Rightarrow> plan_acc \<Rightarrow> exn + plan_acc" where
  "plan_repo E j ctype self_sha config =
     (\<lambda>(repo_name, components) acc.
        bindE (py_contains repo_name config) (\<lambda>present.
        bindE (if present then py_getitem config repo_name else Inr (CBool True)) (\<lambda>repo_entry.
          if \<not> present \<or> repo_entry = CBool True then
            plan_whole_repo j ctype repo_name components self_sha acc
          else case repo_entry of
            CDict d \<Rightarrow>
              foldE (plan_dir j ctype self_sha repo_name repo_entry components)
                (set_order E (map fst components)) acc
          | CStr custom_sha \<Rightarrow>
              bindE (plan_whole_repo j ctype repo_name components (Some custom_sha) acc)
                (\<lambda>acc1. Inr (if self_sha \<noteq> None
                             then acc1 \<lparr> overridden_repos := overridden_repos acc1 @ [repo_name] \<rparr>
                             else acc1))
          | CBool False \<Rightarrow> Inr (acc \<lparr> skipped_repos := skipped_repos acc @ [repo_name] \<rparr>)
          | _ \<Rightarrow> Inl (UserWarning ''repo has an invalid entry in .nf-core.yml''))))"

text \<open>Lines 531 to 551: each summary is logged once, when its list is not empty.\<close>

definition log_summaries :: "plan_acc \<Rightarrow> world \<Rightarrow> unit res" where
  "log_summaries acc =
     (\<lambda>w. bnd (if skipped_repos acc \<noteq> []
                then log_msg Info (SkippingRepos (component_type w) (skipped_repos acc)) else ret ()) (\<lambda>_.
          bnd (if skipped_components acc \<noteq> []
                then log_msg Info (SkippingComponents (component_type w) (skipped_components acc)) else ret ()) (\<lambda>_.
          bnd (if overridden_repos acc \<noteq> []
                then log_msg Info (OverridingRepos (component_type w) (overridden_repos acc)) else ret ()) (\<lambda>_.
              (if overridden_components acc \<noteq> []
                then log_msg Info (OverridingComponents (component_type w) (overridden_components acc))
                else ret ())))) w)"

text \<open>
  Lines 553 to 561: the targets grouped by repo and branch, the branch of the call
  replacing the recorded one when it is given.
\<close>

type_synonym repos_and_branches = "((string \<times> string) \<times> (string \<times> string option) list) list"

definition group_target :: "string option \<Rightarrow> string \<Rightarrow> comp_target \<Rightarrow> repos_and_branches \<Rightarrow> repos_and_branches" where
  "group_target branch0 repo_name =
     (\<lambda>(cname, sha1, comp_branch) rb.
        let b = (case branch0 of None \<Rightarrow> comp_branch | Some b0 \<Rightarrow> b0);
            old = (case map_of rb (repo_name, b) of None \<Rightarrow> [] | Some xs \<Rightarrow> xs)
        in AList.update (repo_name, b) (old @ [(cname, sha1)]) rb)"

definition group_by_repo_branch :: "string option \<Rightarrow> components_info \<Rightarrow> repos_and_branches" where
  "group_by_repo_branch branch0 ci =
     fold (\<lambda>(repo_name, repo_content).
             fold (\<lambda>(component_dir, comps). fold (group_target branch0 repo_name) comps) repo_content)
       ci []"

text \<open>
  \<open>ModulesRepo(remote_url, branch)\<close>: a LookupError when the registry cannot be set
  up, else the source of that url and branch.
\<close>

definition ModulesRepo :: "env \<Rightarrow> string \<Rightarrow> string \<Rightarrow> exn + modules_repo" where
  "ModulesRepo E url b =
     (if repo_reachable E url b
      then Inr \<lparr> remote_url = url, branch = b, repo_path = repo_path_of E url \<rparr>
      else Inl (LookupError ''registry source not available''))"

text \<open>Lines 564 to 572: one registry source per group; a group whose source fails is skipped.\<close>

fun create_repos :: "env \<Rightarrow> repos_and_branches \<Rightarrow> (modules_repo \<times> (string \<times> string option) list) list
    \<Rightarrow> world \<Rightarrow> ((modules_repo \<times> (string \<times> string option) list) list) res" where
  "create_repos E [] acc w = ret acc w"
| "create_repos E (((repo_url, b), comps_shas) # rest) acc w =
     (case ModulesRepo E repo_url b of
        Inl e \<Rightarrow>
          (if is_LookupError e then
             bnd (log_msg Warning (RepoLookupFailed e)) (\<lambda>_.
             bnd (log_msg Info (SkippingIn (component_type w) repo_url)) (\<lambda>_.
             create_repos E rest acc)) w
           else raise e w)
      | Inr r \<Rightarrow> create_repos E rest (acc @ [(r, comps_shas)]) w)"

text \<open>
  Lines 579 to 593: the \<open>while\<close> loop that pops the entries whose component is no
  longer in the registry or whose sha is not on the branch.
\<close>

fun drop_missing :: "env \<Rightarrow> (modules_repo \<times> string \<times> string option) list \<Rightarrow> world
    \<Rightarrow> ((modules_repo \<times> string \<times> string option) list) res" where
  "drop_missing E [] w = ret [] w"
| "drop_missing E ((repo, cname, sha1) # rest) w =
     (if \<not> component_exists E repo cname (component_type w) then
        bnd (log_msg Warning (ComponentNotExist cname (remote_url repo))) (\<lambda>_. drop_missing E rest) w
      else if sha1 \<noteq> None \<and> \<not> sha_exists_on_branch E repo (the sha1) then
        bnd (log_msg Warning (ShaNotOnBranch (the sha1) (branch repo) (remote_url repo) cname)) (\<lambda>_.
          drop_missing E rest) w
      else bnd (drop_missing E rest) (\<lambda>kept. ret ((repo, cname, sha1) # kept)) w)"

text \<open>
  \<open>get_all_components_info(branch)\<close>. The \<open>questionary.confirm\<close> of line 368 is never
  asked (there is no \<open>unsafe_ask\<close>), and the question object is truthy, so a branch that
  is given is kept.
\<close>

definition get_all_components_info :: "env \<Rightarrow> string option \<Rightarrow> world \<Rightarrow> (plan_entry list) res" where
  "get_all_components_info E branch0 =
     (\<lambda>w. bnd (lift (foldE (plan_repo E (mj w) (component_type w) (sha w) (update_config w))
                       (get_all_components (mj w) (component_type w)) empty_acc)) (\<lambda>acc.
          bnd (log_summaries acc) (\<lambda>_.
          bnd (create_repos E (group_by_repo_branch branch0 (components_info acc)) []) (\<lambda>repo_objs_comps.
          bnd (drop_missing E
                 (concat (map (\<lambda>(repo, comps_shas). map (\<lambda>(cname, sha1). (repo, cname, sha1)) comps_shas)
                            repo_objs_comps))) (\<lambda>kept.
          (\<lambda>w1. ret (map (\<lambda>(repo, cname, sha1).
                            (repo, cname, sha1, get_patch_fn (mj w1) cname (remote_url repo) (repo_path repo)))
                         kept) w1))))) w)"

text \<open>The summary line of the skipped repos, and the other lines that skip a repo.\<close>

fun is_SkippingRepos :: "level \<times> msg \<Rightarrow> bool" where
  "is_SkippingRepos (l, SkippingRepos t rs) = True"
| "is_SkippingRepos _ = False"

fun skips_source_of :: "string \<Rightarrow> level \<times> msg \<Rightarrow> bool" where
  "skips_source_of url (l, SkippingIn t u) = (u = url)"
| "skips_source_of url _ = False"

text \<open>
  A step of the first loop that works on the repo \<open>rn\<close> leaves the targets of every
  other repo and the list of skipped repos as they are.
\<close>

definition touches_only :: "string \<Rightarrow> plan_acc \<Rightarrow> plan_acc \<Rightarrow> bool" where
  "touches_only rn a a' \<longleftrightarrow>
     (\<forall>k. k \<noteq> rn \<longrightarrow> map_of (components_info a') k = map_of (components_info a) k)
     \<and> skipped_repos a' = skipped_repos a"

section \<open>The diff file\<close>

text \<open>\<open>Path(s)\<close> on a file name: the empty name is the current directory.\<close>

definition Path :: "string \<Rightarrow> string" where
  "Path s = (if s = [] then ''.'' else s)"

text \<open>\<open>os.remove(p)\<close> and \<open>p.touch()\<close>; the directory that holds \<open>p\<close> is taken to exist.\<close>

definition os_remove :: "string \<Rightarrow> world \<Rightarrow> unit res" where
  "os_remove p w =
     (case files w p of
        None \<Rightarrow> raise FileNotFoundError w
      | Some Directory \<Rightarrow> raise IsADirectoryError w
      | Some (RegularFile chunks) \<Rightarrow> Some (Inr (), w \<lparr> files := (files w)(p := None) \<rparr>))"

definition touch :: "string \<Rightarrow> world \<Rightarrow> unit res" where
  "touch p w =
     (case files w p of
        None \<Rightarrow> Some (Inr (), w \<lparr> files := (files w)(p \<mapsto> RegularFile []) \<rparr>)
      | Some node \<Rightarrow> Some (Inr (), w))"

text \<open>
  Lines 619 to 627 of \<open>setup_diff_file\<close>: the \<open>while\<close> loop over a name that exists.
  Every turn that continues takes two answers of the user.
\<close>

function diff_file_loop :: "string \<Rightarrow> world \<Rightarrow> string res" where
  "diff_file_loop p w =
     (case files w p of
        None \<Rightarrow> ret p w
      | Some node \<Rightarrow>
          (case answers w of
             AConfirm True # rest \<Rightarrow> bnd (os_remove p) (\<lambda>_. ret p) (w \<lparr> answers := rest \<rparr>)
           | AConfirm False # AText q # rest \<Rightarrow> diff_file_loop (Path q) (w \<lparr> answers := rest \<rparr>)
           | _ \<Rightarrow> None))"
  by pat_completeness auto
termination
  by (relation "measure (\<lambda>(p, w). length (answers w))") auto

declare diff_file_loop.simps [simp del]

definition setup_diff_file :: "world \<Rightarrow> unit res" where
  "setup_diff_file =
     bnd (\<lambda>w. case save_diff_fn w of
                 SBool True \<Rightarrow> ask_text w
               | SPath p \<Rightarrow> ret p w
               | _ \<Rightarrow> raise TypeError w) (\<lambda>fn.
     bnd (diff_file_loop (Path fn)) (\<lambda>p.
     bnd (modify (\<lambda>w. w \<lparr> save_diff_fn := SPath p \<rparr>)) (\<lambda>_.
     touch p)))"

text \<open>
  \<open>ModulesDiffer.write_diff_file(fn, ...)\<close> in its default append mode and
  \<open>ModulesDiffer.append_modules_json_diff\<close>: one more chunk at the end of the file.
\<close>

definition append_chunk :: "string \<Rightarrow> string \<Rightarrow> world \<Rightarrow> unit res" where
  "append_chunk p chunk w =
     (case files w p of
        Some Directory \<Rightarrow> raise IsADirectoryError w
      | Some (RegularFile chunks) \<Rightarrow>
          Some (Inr (), w \<lparr> files := (files w)(p \<mapsto> RegularFile (chunks @ [chunk])) \<rparr>)
      | None \<Rightarrow> Some (Inr (), w \<lparr> files := (files w)(p \<mapsto> RegularFile [chunk]) \<rparr>))"

section \<open>Patch reconciliation and installation\<close>

definition dir_of :: "world \<Rightarrow> dirpath \<Rightarrow> dir_content" where
  "dir_of w d = (case installed w d of None \<Rightarrow> Map.empty | Some c \<Rightarrow> c)"

text \<open>Reading the patch file of the pipeline.\<close>

definition read_patch :: "filepath \<Rightarrow> world \<Rightarrow> string res" where
  "read_patch p w =
     (case installed w (fst p) of
        None \<Rightarrow> raise FileNotFoundError w
      | Some c \<Rightarrow> (case c (snd p) of None \<Rightarrow> raise FileNotFoundError w | Some t \<Rightarrow> ret t w))"

text \<open>
  \<open>try_apply_patch\<close>. The staging directory is a fresh temporary directory, so its
  content is a value that the call takes and returns with its boolean. The scratch
  copy is the staged content; the patched files are written over it, the regenerated
  patch is the diff from the staged content to the scratch copy, written into the
  scratch copy under the patch's own name, and the scratch copy replaces the staged
  content. On failure the patch file moves from the pipeline into the staging
  directory. \<open>check_patch_paths\<close> (not in this file) is taken to accept the patch.
\<close>

definition try_apply_patch ::
  "env \<Rightarrow> string \<Rightarrow> string \<Rightarrow> filepath \<Rightarrow> dirpath \<Rightarrow> dir_content \<Rightarrow> world \<Rightarrow> (bool \<times> dir_content) res" where
  "try_apply_patch E cname repo_path1 patch_relpath component_dir staged =
     bnd (log_msg Info (FoundPatch repo_path1 cname)) (\<lambda>_.
     bnd (read_patch patch_relpath) (\<lambda>patch_text.
       case differ_apply E patch_text staged of
         None \<Rightarrow>
           bnd (lift (relative_to patch_relpath component_dir)) (\<lambda>fn.
           bnd (modify (\<lambda>w. w \<lparr> installed :=
                   (installed w)(fst patch_relpath \<mapsto> (dir_of w (fst patch_relpath))(snd patch_relpath := None)) \<rparr>)) (\<lambda>_.
           bnd (log_msg Warning (FailedToApplyPatch repo_path1 cname)) (\<lambda>_.
           ret (False, staged(fn \<mapsto> patch_text)))))
       | Some new_files \<Rightarrow>
           bnd (log_msg Debug WritingPatchedFiles) (\<lambda>_.
           bnd (log_msg Debug RegeneratingPatch) (\<lambda>_.
           bnd (lift (relative_to patch_relpath component_dir)) (\<lambda>fn.
           bnd (log_msg Debug OverwritingInstalled) (\<lambda>_.
           bnd (\<lambda>w. add_patch_entry cname (remote_url (modules_repo w)) repo_path1 patch_relpath True w) (\<lambda>_.
           ret (True, (staged ++ new_files)(fn \<mapsto> differ_diff E staged (staged ++ new_files))))))))))"

text \<open>
  \<open>move_files_from_tmp_dir\<close>: the installed directory is cleared and holds the staged
  files afterwards.
\<close>

definition move_files_from_tmp_dir :: "string \<Rightarrow> dir_content \<Rightarrow> string \<Rightarrow> string \<Rightarrow> world \<Rightarrow> unit res" where
  "move_files_from_tmp_dir cname staged repo_path1 new_version =
     bnd (log_msg Debug (RemovingOld cname)) (\<lambda>_.
     bnd (modify (\<lambda>w. w \<lparr> installed := (installed w)([component_type w, repo_path1, cname] \<mapsto> staged) \<rparr>)) (\<lambda>_.
     bnd (log_msg Info (UpdatingComponent repo_path1 cname)) (\<lambda>_.
     log_msg Debug (UpdatingComponentTo cname new_version repo_path1))))"

section \<open>Cascade\<close>

text \<open>\<open>mods_json["repos"][url][type][dir][component]["installed_by"]\<close>\<close>

definition installed_by_of :: "modules_json \<Rightarrow> string \<Rightarrow> string \<Rightarrow> string \<Rightarrow> string \<Rightarrow> exn + string list" where
  "installed_by_of j url ctype dir cname =
     (case mj_lookup j url ctype dir cname of None \<Rightarrow> Inl KeyError | Some r \<Rightarrow> Inr (installed_by r))"

text \<open>
  The scan of lines 744 to 755: every component of Persisted State whose installed-by
  list names the subworkflow, with its own type.
\<close>

definition users_of :: "modules_json \<Rightarrow> string \<Rightarrow> string \<Rightarrow> string list" where
  "users_of j cname wanted_type =
     concat (map (\<lambda>(repo, repo_content).
       concat (map (\<lambda>(ctype, dir_content).
         concat (map (\<lambda>(dir, components).
           concat (map (\<lambda>(c, comp_content).
             if cname \<in> set (installed_by comp_content) \<and> ctype = wanted_type then [c] else [])
             components)) dir_content)) repo_content)) (repos j))"

definition get_modules_subworkflows_to_update :: "string \<Rightarrow> string \<Rightarrow> world \<Rightarrow> (string list \<times> string list) res" where
  "get_modules_subworkflows_to_update cname install_dir w =
     bnd (lift (installed_by_of (mj w) (remote_url (modules_repo w)) (component_type w) install_dir cname))
       (\<lambda>ib.
          if component_type w = ''modules'' then
            ret ([], filter (\<lambda>subworkflow. subworkflow \<noteq> component_type w) ib)
          else if component_type w = ''subworkflows'' then
            ret (users_of (mj w) cname ''modules'', users_of (mj w) cname ''subworkflows'')
          else ret ([], [])) w"

text \<open>
  \<open>_change_component_type\<close> and \<open>_reset_component_type\<close>. The cache
  \<open>pipeline_components\<close> they clear is not in the state: \<open>get_all_components\<close> reads
  Persisted State each time.
\<close>

definition change_component_type :: "string \<Rightarrow> world \<Rightarrow> string res" where
  "change_component_type new_type w = Some (Inr (component_type w), w \<lparr> component_type := new_type \<rparr>)"

definition reset_component_type :: "string \<Rightarrow> world \<Rightarrow> unit res" where
  "reset_component_type original w = Some (Inr (), w \<lparr> component_type := original \<rparr>)"

text \<open>
  One of the two loops of \<open>update_linked_components\<close>, over the nested update \<open>upd\<close>
  (\<open>self.update\<close>). The value is the list of the nested calls made, each with the
  component type that was active when it was made; the source returns nothing.
\<close>

fun nested_updates :: "(string \<Rightarrow> world \<Rightarrow> bool res) \<Rightarrow> string \<Rightarrow> string list \<Rightarrow> world \<Rightarrow> ((string \<times> string) list) res" where
  "nested_updates upd new_type [] w = ret [] w"
| "nested_updates upd new_type (s # rest) w =
     bnd (change_component_type new_type) (\<lambda>original.
     bnd (\<lambda>w1. bnd (upd s) (\<lambda>_. ret (component_type w1, s)) w1) (\<lambda>call.
     bnd (reset_component_type original) (\<lambda>_.
     bnd (nested_updates upd new_type rest) (\<lambda>calls.
     ret (call # calls))))) w"

definition update_linked_components ::
  "(string \<Rightarrow> world \<Rightarrow> bool res) \<Rightarrow> string \<Rightarrow> string \<Rightarrow> world \<Rightarrow> ((string \<times> string) list) res" where
  "update_linked_components upd cname install_dir =
     bnd (get_modules_subworkflows_to_update cname install_dir) (\<lambda>(modules_to_update, subworkflows_to_update).
     bnd (nested_updates upd ''subworkflows'' subworkflows_to_update) (\<lambda>calls1.
     bnd (nested_updates upd ''modules'' modules_to_update) (\<lambda>calls2.
     ret (calls1 @ calls2))))"

section \<open>The update\<close>

text \<open>\<open>_parameter_checks\<close>\<close>

definition parameter_checks :: "world \<Rightarrow> unit res" where
  "parameter_checks w =
     (if truthy_save_diff (save_diff_fn w) \<and> show_diff w = Some True then
        raise (UserWarning ''either preview or save_diff, not both'') w
      else if update_all w \<and> component w \<noteq> None \<and> component w \<noteq> Some [] then
        raise (UserWarning ''either a component or the all flag, not both'') w
      else if repo_type w = ''modules'' then
        raise (UserWarning ''components in clones of nf-core/modules can not be updated'') w
      else if prompt w \<and> sha w \<noteq> None then
        raise (UserWarning ''cannot use sha and prompt at the same time'') w
      else if \<not> valid_directory w then
        raise (UserWarning ''not a valid pipeline directory'') w
      else ret () w)"

text \<open>Lines 191 to 231: the diff of a dry run, and whether the run stays dry.\<close>

definition present_diff ::
  "env \<Rightarrow> modules_repo \<Rightarrow> string \<Rightarrow> dirpath \<Rightarrow> dir_content \<Rightarrow> bool option \<Rightarrow> bool \<Rightarrow> world \<Rightarrow> bool res" where
  "present_diff E repo cname component_dir staged patch_successful dry_run =
     (\<lambda>w. if dry_run then
            bnd (case patch_successful of
                   None \<Rightarrow> ret ()
                 | Some True \<Rightarrow> log_msg Info ComparedPatched
                 | Some False \<Rightarrow> log_msg Warning ComparedUnpatched) (\<lambda>_.
              if truthy_save_diff (save_diff_fn w) then
                (case save_diff_fn w of
                   SPath p \<Rightarrow>
                     bnd (log_msg Info (WritingDiffFile component_dir p)) (\<lambda>_.
                     bnd (\<lambda>w1. append_chunk p (differ_diff E (dir_of w1 component_dir) staged) w1) (\<lambda>_.
                     ret dry_run))
                 | _ \<Rightarrow> raise TypeError)
              else if show_diff w = Some True then
                bnd ask_confirm (\<lambda>answer. ret (\<not> answer))
              else ret dry_run) w
          else ret dry_run w)"

text \<open>
  Lines 233 to 244: the installation with its write-through record and cascade, or
  the record in memory only.
\<close>

definition install_or_record ::
  "(string \<Rightarrow> world \<Rightarrow> bool res) \<Rightarrow> modules_repo \<Rightarrow> string \<Rightarrow> string \<Rightarrow> dir_content \<Rightarrow> bool \<Rightarrow> world \<Rightarrow> unit res" where
  "install_or_record upd repo cname version staged dry_run =
     (if \<not> dry_run then
        bnd (move_files_from_tmp_dir cname staged (repo_path repo) version) (\<lambda>_.
        bnd (\<lambda>w. modules_json_update (component_type w) repo cname version (component_type w) True w) (\<lambda>_.
        bnd (update_linked_components upd cname (repo_path repo)) (\<lambda>_. ret ())))
      else
        (\<lambda>w. modules_json_update (component_type w) repo cname version (component_type w) False w))"

text \<open>
  Lines 142 to 244: the body of the loop for one entry of the plan, on the pair
  \<open>(exit_value, all_patches_successful)\<close>.
\<close>

definition process_entry ::
  "(string \<Rightarrow> world \<Rightarrow> bool res) \<Rightarrow> env \<Rightarrow> plan_entry \<Rightarrow> bool \<times> bool \<Rightarrow> world \<Rightarrow> (bool \<times> bool) res" where
  "process_entry upd E =
     (\<lambda>(repo, cname, sha1, patch_relpath) (exit_value, all_patches_successful) w.
        let component_dir = [component_type w, repo_path repo, cname];
            dry_run = (show_diff w = Some True \<or> truthy_save_diff (save_diff_fn w));
            current_version = get_component_version (mj w) (component_type w) cname
                                (remote_url repo) (repo_path repo)
        in bnd (resolve_version E repo cname sha1) (\<lambda>version.
             if current_version \<noteq> None \<and> \<not> force w \<and> current_version = Some version then
               bnd (if (sha w \<noteq> None \<and> sha w \<noteq> Some []) \<or> prompt w
                    then log_msg Info (AlreadyInstalledAt component_dir version)
                    else log_msg Info (AlreadyUpToDate component_dir)) (\<lambda>_.
               ret (exit_value, all_patches_successful))
             else
               (\<lambda>w1. case install_component_files E (component_type w1) cname version repo of
                  None \<Rightarrow> ret (False, all_patches_successful) w1
                | Some staged \<Rightarrow>
                    bnd (case patch_relpath of
                           None \<Rightarrow> ret (None, staged)
                         | Some p \<Rightarrow>
                             bnd (try_apply_patch E cname (repo_path repo) p component_dir staged)
                               (\<lambda>(patch_successful, staged1).
                             bnd (if patch_successful
                                  then log_msg Info (PatchedSuccessfully component_dir)
                                  else log_msg Warning (FailedToPatch component_dir)) (\<lambda>_.
                             ret (Some patch_successful, staged1))))
                      (\<lambda>(patch_successful, staged1).
                    bnd (present_diff E repo cname component_dir staged1 patch_successful dry_run)
                      (\<lambda>dry_run1.
                    bnd (install_or_record upd repo cname version staged1 dry_run1) (\<lambda>_.
                    ret (exit_value,
                         all_patches_successful \<and> patch_successful \<noteq> Some False)))) w1)) w)"

text \<open>The \<open>for\<close> loop of lines 141 to 244.\<close>

fun update_entries ::
  "(string \<Rightarrow> world \<Rightarrow> bool res) \<Rightarrow> env \<Rightarrow> plan_entry list \<Rightarrow> bool \<times> bool \<Rightarrow> world \<Rightarrow> (bool \<times> bool) res" where
  "update_entries upd E [] acc w = ret acc w"
| "update_entries upd E (e # es) acc w =
     bnd (process_entry upd E e acc) (\<lambda>acc1. update_entries upd E es acc1) w"

text \<open>
  \<open>update(component)\<close> over the nested update \<open>upd\<close>. \<open>check_modules_structure\<close> and
  \<open>check_up_to_date\<close> (not in this file) are taken to find the pipeline consistent.
\<close>

definition update_body ::
  "(string \<Rightarrow> world \<Rightarrow> bool res) \<Rightarrow> env \<Rightarrow> string option \<Rightarrow> world \<Rightarrow> bool res" where
  "update_body upd E component0 =
     bnd (modify (\<lambda>w. w \<lparr> component := component0 \<rparr>)) (\<lambda>_.
     bnd parameter_checks (\<lambda>_.
     bnd (\<lambda>w. if \<not> update_all w \<and> component0 = None
               then bnd ask_select (\<lambda>choice. modify (\<lambda>w1. w1 \<lparr> update_all := (choice = 0) \<rparr>)) w
               else ret () w) (\<lambda>_.
     (\<lambda>w. if sha w \<noteq> None \<and> \<not> sha_exists_on_branch E (modules_repo w) (the (sha w)) then
             bnd (log_msg Error (ShaNotFound (the (sha w)) (remote_url (modules_repo w)))) (\<lambda>_. ret False) w
           else
             bnd (if update_all w then get_all_components_info E None
                  else bnd (get_single_component_info E component0) (\<lambda>e. ret [e])) (\<lambda>components_info.
             (\<lambda>w1. let old_modules_json = mj w1 in
               bnd (\<lambda>w2. if \<not> truthy_save_diff (save_diff_fn w2) \<and> show_diff w2 = None
                          then bnd ask_select (\<lambda>diff_type.
                                 modify (\<lambda>w3. w3 \<lparr> show_diff := Some (diff_type = 1),
                                                    save_diff_fn := SBool (diff_type = 2) \<rparr>)) w2
                          else ret () w2) (\<lambda>_.
               bnd (\<lambda>w2. if truthy_save_diff (save_diff_fn w2) then setup_diff_file w2 else ret () w2) (\<lambda>_.
               bnd (update_entries upd E components_info (True, True)) (\<lambda>(exit_value, all_patches_successful).
               bnd (\<lambda>w2. if truthy_save_diff (save_diff_fn w2) then
                            (case save_diff_fn w2 of
                               SPath p \<Rightarrow>
                                 bnd (append_chunk p (json_diff E old_modules_json (mj w2))) (\<lambda>_.
                                   if exit_value then log_msg Info (Tip p) else ret ()) w2
                             | _ \<Rightarrow> raise TypeError w2)
                          else if \<not> all_patches_successful then log_msg Info ApplyFailedPatchesManually w2
                          else log_msg Info UpdatesComplete w2) (\<lambda>_.
               ret exit_value)))) w1)) w))))"

text \<open>
  \<open>update\<close> calls itself through \<open>update_linked_components\<close>, and nothing bounds the
  depth of the cascade; the fuel bounds it here, and a run that needs more never returns.
\<close>

fun update :: "nat \<Rightarrow> env \<Rightarrow> string option \<Rightarrow> world \<Rightarrow> bool res" where
  "update 0 E component0 w = None"
| "update (Suc n) E component0 w = update_body (\<lambda>s. update n E (Some s)) E component0 w"

section \<open>Properties of the collaborators and further example inputs\<close>

text \<open>
  Modelled from the spec: the diff and patch engine (\<open>ModulesDiffer\<close>) is not in this
  file. This is its round trip on one pair of directory contents (reapplying a patch
  to the baseline it was generated against reproduces the patched content): its patch
  from \<open>a\<close> to \<open>b\<close> applies to \<open>a\<close>, and the files it returns, written over \<open>a\<close>,
  give \<open>b\<close>.
\<close>

definition round_trips :: "env \<Rightarrow> dir_content \<Rightarrow> dir_content \<Rightarrow> bool" where
  "round_trips E a b \<longleftrightarrow> (\<exists>nf. differ_apply E (differ_diff E a b) a = Some nf \<and> a ++ nf = b)"

text \<open>
  The pipeline of \<open>ex_world\<close> with a patch on record for \<open>fastqc\<close>, which no
  subworkflow uses here, and the patch file in the module's directory.
\<close>

definition ex_patch :: filepath where
  "ex_patch = ([''modules'', ''nf-core'', ''fastqc''], ''fastqc.diff'')"

definition ex_json_patched :: modules_json where
  "ex_json_patched = \<lparr> repos =
       [(''nfcore.git'',
          [(''modules'', [(''nf-core'',
              [(''fastqc'', \<lparr> git_sha = ''old111'', rec_branch = ''master'',
                               installed_by = [''modules''] \<rparr>)])])])],
     patches = [((''fastqc'', ''nfcore.git'', ''nf-core''), ex_patch)] \<rparr>"

definition ex_world_patched :: world where
  "ex_world_patched = ex_world \<lparr> mj := ex_json_patched, mj_disk := ex_json_patched,
       installed := [[''modules'', ''nf-core'', ''fastqc'']
                       \<mapsto> [''main.nf'' \<mapsto> ''v1 edited'', ''fastqc.diff'' \<mapsto> ''edit'']] \<rparr>"

text \<open>An engine that applies every patch, with the one result \<open>v2 edited\<close>.\<close>

definition ex_env_applies :: env where
  "ex_env_applies = ex_env \<lparr> differ_apply := (\<lambda>p d. Some [''main.nf'' \<mapsto> ''v2 edited'']) \<rparr>"

text \<open>
  A run stays dry when the diffs go to a file, or when they are previewed and the
  user confirms no update. A dry step leaves the installed directories and the
  \<open>modules.json\<close> on disk as they are, keeps the mode, and takes answers only.
\<close>

definition dry_mode :: "world \<Rightarrow> bool" where
  "dry_mode w \<longleftrightarrow>
     truthy_save_diff (save_diff_fn w) \<or> (show_diff w = Some True \<and> AConfirm True \<notin> set (answers w))"

text \<open>
  One entry stays dry when the diffs go to a file, or when they are previewed and the
  answer that the confirmation of this entry will read (after the answer to the
  version prompt, when there is one) is not a yes.
\<close>

definition entry_dry :: "string option \<Rightarrow> world \<Rightarrow> bool" where
  "entry_dry sha1 w \<longleftrightarrow>
     truthy_save_diff (save_diff_fn w)
     \<or> (show_diff w = Some True
        \<and> (case (if sha1 = None \<and> prompt w then tl (answers w) else answers w) of
              AConfirm True # rest \<Rightarrow> False
            | _ \<Rightarrow> True))"

definition dry_frame :: "world \<Rightarrow> world \<Rightarrow> bool" where
  "dry_frame w w' \<longleftrightarrow>
     installed w' = installed w \<and> mj_disk w' = mj_disk w \<and> show_diff w' = show_diff w
     \<and> save_diff_fn w' = save_diff_fn w \<and> component_type w' = component_type w
     \<and> set (answers w') \<subseteq> set (answers w)"

text \<open>
  The pipeline of \<open>ex_world\<close> with \<open>fastqc\<close> alone, and an update of it with the
  sha \<open>abc123\<close> on the command line under the Override Configuration \<open>c\<close>.
\<close>

definition ex_json_solo :: modules_json where
  "ex_json_solo = \<lparr> repos =
       [(''nfcore.git'',
          [(''modules'', [(''nf-core'',
              [(''fastqc'', \<lparr> git_sha = ''old111'', rec_branch = ''master'',
                               installed_by = [''modules''] \<rparr>)])])])],
     patches = [] \<rparr>"

definition ex_world_cli_sha :: "cfg \<Rightarrow> world" where
  "ex_world_cli_sha c = ex_world \<lparr> mj := ex_json_solo, mj_disk := ex_json_solo,
       sha := Some ''abc123'', update_config := c \<rparr>"


text \<open>
  A pipeline with two modules of the registry, \<open>multiqc\<close> and \<open>fastqc\<close>, the second
  with a patch on record and the patch file in its directory; a bulk update whose
  diffs go to the file \<open>out.diff\<close>.
\<close>

definition ex_json_two :: modules_json where
  "ex_json_two = \<lparr> repos =
       [(''nfcore.git'',
          [(''modules'', [(''nf-core'',
              [(''multiqc'', \<lparr> git_sha = ''old000'', rec_branch = ''master'',
                                installed_by = [''modules''] \<rparr>),
               (''fastqc'', \<lparr> git_sha = ''old111'', rec_branch = ''master'',
                               installed_by = [''modules''] \<rparr>)])])])],
     patches = [((''fastqc'', ''nfcore.git'', ''nf-core''), ex_patch)] \<rparr>"

definition ex_world_two :: world where
  "ex_world_two = ex_world \<lparr> update_all := True, save_diff_fn := SPath ''out.diff'',
       mj := ex_json_two, mj_disk := ex_json_two,
       installed := [[''modules'', ''nf-core'', ''multiqc''] \<mapsto> [''main.nf'' \<mapsto> ''v1''],
                     [''modules'', ''nf-core'', ''fastqc'']
                       \<mapsto> [''main.nf'' \<mapsto> ''v1 edited'', ''fastqc.diff'' \<mapsto> ''edit'']] \<rparr>"
section \<open>The result monad\<close>

lemma bnd_ret [simp]: "bnd (ret x) f w = f x w"
  by (simp add: bnd_def ret_def)

lemma bnd_raise [simp]: "bnd (raise e) f w = Some (Inl e, w)"
  by (simp add: bnd_def raise_def)

lemma bnd_lift_Inr [simp]: "bnd (lift (Inr x)) f w = f x w"
  by (simp add: bnd_def lift_def)

lemma bnd_lift_Inl [simp]: "bnd (lift (Inl e)) f w = Some (Inl e, w)"
  by (simp add: bnd_def lift_def)

lemma bnd_log [simp]: "bnd (log_msg l m) f w = f () (w \<lparr> logs := logs w @ [(l, m)] \<rparr>)"
  by (simp add: bnd_def log_msg_def)


lemma bnd_Inr_E:
  assumes "bnd m f w = Some (Inr y, w'')"
  obtains x w' where "m w = Some (Inr x, w')" and "f x w' = Some (Inr y, w'')"
  using assms by (auto simp: bnd_def split: option.splits sum.splits prod.splits)

section \<open>Selection planner: one component\<close>

lemma py_contains_dict: "py_contains k (CDict kvs) = Inr (map_of kvs k \<noteq> None)"
  by (simp add: map_of_eq_None_iff)



lemma single_config_sha_entry:
  assumes "single_config_sha cname dir w = Some (Inr s1, w')"
      and "override_entry (update_config w) (remote_url (modules_repo w)) dir cname = Some e"
  shows "e = CNone \<or> e = CBool True \<or> (\<exists>s. e = CStr s)"
  using assms
  by (auto simp: single_config_sha_def override_entry_def ret_def raise_def py_contains_dict
      simp del: py_contains.simps(1)
      split: cfg.splits option.splits if_splits)

lemma single_config_sha_False:
  assumes "override_entry (update_config w) (remote_url (modules_repo w)) dir cname = Some (CBool False)"
  shows "single_config_sha cname dir w =
           Some (Inl (UserWarning ''update entry in .nf-core.yml is set to False''), w)"
  using assms
  by (auto simp: single_config_sha_def override_entry_def ret_def raise_def py_contains_dict
      simp del: py_contains.simps(1)
      split: cfg.splits option.splits if_splits)

lemma single_config_sha_wrong_type:
  assumes "override_entry (update_config w) (remote_url (modules_repo w)) dir cname = Some e"
      and "e \<noteq> CNone" and "\<forall>b. e \<noteq> CBool b" and "\<forall>s. e \<noteq> CStr s"
  shows "single_config_sha cname dir w =
           Some (Inl (UserWarning ''update entry in .nf-core.yml is of wrong type''), w)"
  using assms
  by (auto simp: single_config_sha_def override_entry_def ret_def raise_def py_contains_dict
      simp del: py_contains.simps(1)
      split: cfg.splits option.splits if_splits)

lemma single_config_sha_logs:
  assumes "single_config_sha cname dir w = Some (r, w')"
  shows "\<exists>l. logs w' = logs w @ l"
  using assms
  by (auto simp: single_config_sha_def ret_def raise_def py_contains_dict lift_def bnd_def log_msg_def
      simp del: py_contains.simps(1)
      split: cfg.splits option.splits if_splits sum.splits)


lemma ask_name_frame:
  assumes "(case c0 of None \<Rightarrow> ask_text | Some c \<Rightarrow> ret c) w = Some (r, w1)"
  shows "w1 = w \<lparr> answers := answers w1 \<rparr>"
  using assms by (auto simp: ask_text_def ret_def split: option.splits list.splits answer.splits)

lemma get_single_Inr_D:
  assumes "get_single_component_info E c0 w = Some (Inr (repo, cname, sha1, patch), w')"
  shows "\<exists>comps dir rest w1 w2.
           map_of (get_all_components (mj w) (component_type w)) (remote_url (modules_repo w)) = Some comps
         \<and> install_dirs_of comps cname = dir # rest
         \<and> cname \<in> set (component_choices comps)
         \<and> (cname = [] \<or> cname \<in> set (get_avail_components E (modules_repo w) (component_type w)))
         \<and> (case c0 of None \<Rightarrow> ask_text | Some c \<Rightarrow> ret c) w = Some (Inr cname, w1)
         \<and> single_config_sha cname dir w1 = Some (Inr sha1, w2)
         \<and> check_update_branch cname dir w2 = Some (Inr (), w')
         \<and> repo = modules_repo w'
         \<and> patch = get_patch_fn (mj w') cname (remote_url (modules_repo w')) dir"
  using assms
  unfolding get_single_component_info_def Let_def
  by (auto simp: raise_def ret_def split: option.splits if_splits list.splits
           elim!: bnd_Inr_E)

lemma get_single_passes_checks:
  assumes "map_of (get_all_components (mj w) (component_type w)) (remote_url (modules_repo w)) = Some comps"
      and "install_dirs_of comps cname = dir # rest"
      and "cname \<in> set (component_choices comps)"
      and "cname \<in> set (get_avail_components E (modules_repo w) (component_type w))"
  shows "get_single_component_info E (Some cname) w =
           bnd (single_config_sha cname dir) (\<lambda>sha1.
           bnd (check_update_branch cname dir) (\<lambda>_.
           (\<lambda>w1. ret (modules_repo w1, cname, sha1,
                       get_patch_fn (mj w1) cname (remote_url (modules_repo w1)) dir) w1))) w"
  using assms
  unfolding get_single_component_info_def Let_def
  by (auto simp: map_of_eq_None_iff [symmetric])


lemma ex_components:
  "get_all_components ex_json ''modules'' = [(''nfcore.git'', [(''nf-core'', ''fastqc'')])]"
  by (simp add: get_all_components_def ex_json_def)

lemma ex_fields:
  "component_type ex_world = ''modules''" "component ex_world = None" "force ex_world = False"
  "prompt ex_world = False" "sha ex_world = None" "update_all ex_world = False"
  "show_diff ex_world = Some False" "save_diff_fn ex_world = SNone"
  "update_config ex_world = CDict []" "modules_repo ex_world = ex_repo"
  "repo_type ex_world = ''pipeline''" "valid_directory ex_world = True"
  "mj ex_world = ex_json" "mj_disk ex_world = ex_json"
  "files ex_world = Map.empty" "logs ex_world = []" "answers ex_world = []"
  "installed ex_world = [[''modules'', ''nf-core'', ''fastqc''] \<mapsto> [''main.nf'' \<mapsto> ''v1'']]"
  by (simp_all add: ex_world_def)

lemma ex_repo_fields:
  "remote_url ex_repo = ''nfcore.git''" "branch ex_repo = ''master''" "repo_path ex_repo = ''nf-core''"
  by (simp_all add: ex_repo_def)

lemma ex_env_fields:
  "sha_exists_on_branch ex_env = (\<lambda>r s. True)"
  "get_avail_components ex_env = (\<lambda>r t. [''fastqc'', ''bam_sort''])"
  "component_exists ex_env = (\<lambda>r c t. True)"
  "get_latest_component_version ex_env = (\<lambda>r c t. ''new999'')"
  "install_component_files ex_env = (\<lambda>t c v r. Some [''main.nf'' \<mapsto> ''v2''])"
  "repo_reachable ex_env = (\<lambda>u b. True)"
  "repo_path_of ex_env = (\<lambda>u. ''nf-core'')"
  "differ_apply ex_env = (\<lambda>p d. None)"
  "differ_diff ex_env = (\<lambda>a b. ''diff'')"
  "json_diff ex_env = (\<lambda>a b. ''jsondiff'')"
  "set_order ex_env = remdups"
  by (simp_all add: ex_env_def)

lemma ex_branch:
  "get_component_branch ex_json ''modules'' ''fastqc'' ''nfcore.git'' ''nf-core'' = Inr ''master''"
  by (simp add: get_component_branch_def mj_lookup_def ex_json_def)

lemma ex_patch_fn: "get_patch_fn ex_json c u d = None"
  by (simp add: get_patch_fn_def ex_json_def)

lemma ex_single_checks:
  assumes "mj w = ex_json" and "component_type w = ''modules''" and "modules_repo w = ex_repo"
  shows "get_single_component_info ex_env (Some ''fastqc'') w =
           bnd (single_config_sha ''fastqc'' ''nf-core'') (\<lambda>sha1.
           bnd (check_update_branch ''fastqc'' ''nf-core'') (\<lambda>_.
           (\<lambda>w1. ret (modules_repo w1, ''fastqc'', sha1,
                       get_patch_fn (mj w1) ''fastqc'' (remote_url (modules_repo w1)) ''nf-core'') w1))) w"
  by (rule get_single_passes_checks [where comps = "[(''nf-core'', ''fastqc'')]" and rest = "[]"])
     (simp_all add: assms ex_components ex_repo_fields install_dirs_of_def component_choices_def
        ex_env_def)

lemma ex_branch_ok:
  assumes "mj w = ex_json" and "component_type w = ''modules''" and "modules_repo w = ex_repo"
  shows "check_update_branch ''fastqc'' ''nf-core'' w = Some (Inr (), w)"
  by (simp add: check_update_branch_def assms ex_repo_fields ex_branch ret_def)



text \<open>
  C8, as amended. On the single-component path, when the component's entry of the
  Override Configuration is boolean false, or is neither null, a boolean nor a
  string, no plan entry is produced for the component; and for a component that is
  installed and in the registry's catalog the call raises UserWarning, with the
  message of the disabled entry in the first case and of the wrong type in the second.
\<close>

theorem single_component_disabled_or_malformed:
  assumes "map_of (get_all_components (mj w) (component_type w)) (remote_url (modules_repo w)) = Some comps"
      and "install_dirs_of comps cname = dir # rest"
      and "override_entry (update_config w) (remote_url (modules_repo w)) dir cname = Some e"
      and "e = CBool False \<or> (e \<noteq> CNone \<and> (\<forall>b. e \<noteq> CBool b) \<and> (\<forall>s. e \<noteq> CStr s))"
  shows "(\<forall>c0 repo sha1 patch w'.
            get_single_component_info E c0 w \<noteq> Some (Inr (repo, cname, sha1, patch), w'))
       \<and> (cname \<in> set (component_choices comps)
            \<and> cname \<in> set (get_avail_components E (modules_repo w) (component_type w))
          \<longrightarrow> get_single_component_info E (Some cname) w =
                Some (Inl (UserWarning
                  (if e = CBool False then ''update entry in .nf-core.yml is set to False''
                   else ''update entry in .nf-core.yml is of wrong type'')), w))"
proof -
  have no_entry: "get_single_component_info E c0 w \<noteq> Some (Inr (repo, cname, sha1, patch), w')"
    for c0 repo sha1 patch w'
  proof
    assume r: "get_single_component_info E c0 w = Some (Inr (repo, cname, sha1, patch), w')"
    from get_single_Inr_D [OF r] assms(1,2) obtain w1 w2 where
      a: "(case c0 of None \<Rightarrow> ask_text | Some c \<Rightarrow> ret c) w = Some (Inr cname, w1)" and
      s: "single_config_sha cname dir w1 = Some (Inr sha1, w2)"
      by auto
    note w1 = ask_name_frame [OF a]
    have same: "update_config w1 = update_config w" "modules_repo w1 = modules_repo w"
      by (subst w1, simp)+
    from single_config_sha_entry [OF s] assms(3) same
    have "e = CNone \<or> e = CBool True \<or> (\<exists>s. e = CStr s)" by simp
    with assms(4) show False by auto
  qed
  have raises: "get_single_component_info E (Some cname) w =
                Some (Inl (UserWarning
                  (if e = CBool False then ''update entry in .nf-core.yml is set to False''
                   else ''update entry in .nf-core.yml is of wrong type'')), w)"
    if "cname \<in> set (component_choices comps)"
      and "cname \<in> set (get_avail_components E (modules_repo w) (component_type w))"
  proof (cases "e = CBool False")
    case True
    with assms(3) single_config_sha_False [of w dir cname]
    show ?thesis
      by (simp add: get_single_passes_checks [OF assms(1,2) that] bnd_def)
  next
    case False
    with assms(3,4) single_config_sha_wrong_type [of w dir cname e]
    show ?thesis
      by (simp add: get_single_passes_checks [OF assms(1,2) that] bnd_def)
  qed
  from no_entry raises show ?thesis by blast
qed

theorem single_component_disabled_or_malformed_witness:
  "(\<forall>c0 repo sha1 patch w'.
      get_single_component_info ex_env c0 (ex_world \<lparr> update_config := ex_config (CBool False) \<rparr>)
        \<noteq> Some (Inr (repo, ''fastqc'', sha1, patch), w'))
   \<and> get_single_component_info ex_env (Some ''fastqc'')
        (ex_world \<lparr> update_config := ex_config (CBool False) \<rparr>)
      = Some (Inl (UserWarning ''update entry in .nf-core.yml is set to False''),
              ex_world \<lparr> update_config := ex_config (CBool False) \<rparr>)"
proof -
  have comps: "map_of (get_all_components
        (mj (ex_world \<lparr> update_config := ex_config (CBool False) \<rparr>))
        (component_type (ex_world \<lparr> update_config := ex_config (CBool False) \<rparr>)))
      (remote_url (modules_repo (ex_world \<lparr> update_config := ex_config (CBool False) \<rparr>)))
     = Some [(''nf-core'', ''fastqc'')]"
    by (simp add: ex_fields ex_components ex_repo_fields)
  have dir: "install_dirs_of [(''nf-core'', ''fastqc'')] ''fastqc'' = ''nf-core'' # []"
    by (simp add: install_dirs_of_def)
  have entry: "override_entry (update_config (ex_world \<lparr> update_config := ex_config (CBool False) \<rparr>))
      (remote_url (modules_repo (ex_world \<lparr> update_config := ex_config (CBool False) \<rparr>)))
      ''nf-core'' ''fastqc'' = Some (CBool False)"
    by (simp add: ex_fields ex_config_def override_entry_def ex_repo_fields)
  show ?thesis
    using single_component_disabled_or_malformed [OF comps dir entry, of ex_env]
    by (simp add: component_choices_def ex_env_def)
qed

theorem single_component_null_entry_counterexample:
  "override_entry (ex_config CNone) ''nfcore.git'' ''nf-core'' ''fastqc'' = Some CNone
   \<and> get_single_component_info ex_env (Some ''fastqc'') (ex_world \<lparr> update_config := ex_config CNone \<rparr>)
     = Some (Inr (ex_repo, ''fastqc'', None, None), ex_world \<lparr> update_config := ex_config CNone \<rparr>)"
  by (simp add: ex_single_checks ex_fields ex_repo_fields single_config_sha_def ex_config_def
        ex_branch_ok ret_def ex_patch_fn override_entry_def bnd_def lift_def log_msg_def)

text \<open>
  When the registry has installed components of the active type, the other two
  rejections are LookupErrors: a name that is not installed raises IndexError at line
  299, a subclass of LookupError, and an installed name that the catalog does not
  have raises LookupError at line 309.
\<close>

lemma single_component_lookup_errors:
  assumes "map_of (get_all_components (mj w) (component_type w)) (remote_url (modules_repo w)) = Some comps"
  shows "(install_dirs_of comps cname = [] \<longrightarrow>
            get_single_component_info E (Some cname) w = Some (Inl IndexError, w))
       \<and> (install_dirs_of comps cname \<noteq> [] \<and> cname \<in> set (component_choices comps) \<and> cname \<noteq> []
            \<and> cname \<notin> set (get_avail_components E (modules_repo w) (component_type w)) \<longrightarrow>
            get_single_component_info E (Some cname) w =
              Some (Inl (LookupError ''not found in list of available components''), w))
       \<and> is_LookupError IndexError
       \<and> is_LookupError (LookupError ''not found in list of available components'')"
  using assms
  unfolding get_single_component_info_def Let_def
  by (auto simp: map_of_eq_None_iff [symmetric] raise_def split: list.splits)

text \<open>
  C9 at its failing input. When no component of the active type is installed from
  the registry, \<open>get_single_component_info\<close> raises TypeError, which is not a
  LookupError: line 287 iterates the missing list before line 288 tests for it.
\<close>

theorem single_component_nothing_installed_TypeError:
  assumes "map_of (get_all_components (mj w) (component_type w)) (remote_url (modules_repo w)) = None"
  shows "get_single_component_info E c w = Some (Inl TypeError, w) \<and> \<not> is_LookupError TypeError"
  using assms by (simp add: get_single_component_info_def raise_def)

theorem single_component_nothing_installed_TypeError_witness:
  "get_single_component_info ex_env (Some ''fastqc'')
     (ex_world \<lparr> mj := \<lparr> repos = [], patches = [] \<rparr> \<rparr>)
   = Some (Inl TypeError, ex_world \<lparr> mj := \<lparr> repos = [], patches = [] \<rparr> \<rparr>)
   \<and> \<not> is_LookupError TypeError"
  using single_component_nothing_installed_TypeError
    [of "ex_world \<lparr> mj := \<lparr> repos = [], patches = [] \<rparr> \<rparr>" ex_env "Some ''fastqc''"]
  by (simp add: get_all_components_def)

section \<open>Selection planner: all components\<close>

lemma bindE_Inr_E:
  assumes "bindE r f = Inr y"
  obtains x where "r = Inr x" and "f x = Inr y"
  using assms by (auto simp: bindE_def split: sum.splits)

lemma foldE_inv:
  assumes "foldE f xs s = Inr s'" and "P s"
      and "\<And>x a a'. x \<in> set xs \<Longrightarrow> P a \<Longrightarrow> f x a = Inr a' \<Longrightarrow> P a'"
  shows "P s'"
  using assms
proof (induction xs arbitrary: s)
  case Nil
  then show ?case by simp
next
  case (Cons x xs)
  from Cons.prems(1) obtain s1 where s1: "f x s = Inr s1" and rest: "foldE f xs s1 = Inr s'"
    by (auto split: sum.splits)
  have "P s1" using Cons.prems(3) [OF _ Cons.prems(2) s1] by simp
  then show ?case
    using Cons.IH [OF rest] Cons.prems(3) by (metis list.set_intros(2))
qed

lemma touches_only_refl [simp]: "touches_only rn a a"
  by (simp add: touches_only_def)

lemma touches_only_trans: "touches_only rn a b \<Longrightarrow> touches_only rn b c \<Longrightarrow> touches_only rn a c"
  by (simp add: touches_only_def)

lemma touches_only_reset: "touches_only rn a (reset_repo rn a)"
  by (simp add: touches_only_def reset_repo_def AList.update_conv')

lemma touches_only_add:
  "add_component j ctype rn d c s a = Inr a' \<Longrightarrow> touches_only rn a a'"
  by (auto simp: touches_only_def add_component_def AList.update_conv'
      split: option.splits elim!: bindE_Inr_E)

lemma touches_only_fold:
  assumes "foldE f xs a = Inr a'"
      and "\<And>x b b'. f x b = Inr b' \<Longrightarrow> touches_only rn b b'"
  shows "touches_only rn a a'"
  using assms(1)
proof (rule foldE_inv [where P = "touches_only rn a"])
  show "touches_only rn a a" by simp
next
  fix x b b' assume "touches_only rn a b" "f x b = Inr b'"
  then show "touches_only rn a b'"
    using assms(2) touches_only_trans by blast
qed

lemma touches_only_whole:
  "plan_whole_repo j ctype rn comps s a = Inr a' \<Longrightarrow> touches_only rn a a'"
  unfolding plan_whole_repo_def
  by (rule touches_only_trans [OF touches_only_reset])
     (erule touches_only_fold, auto dest: touches_only_add)

lemma touches_only_component:
  "plan_component j ctype ss rn dc x a = Inr a' \<Longrightarrow> touches_only rn a a'"
  by (cases x)
     (auto simp: plan_component_def touches_only_def split: option.splits cfg.splits bool.splits if_splits
        elim!: bindE_Inr_E dest!: touches_only_add)

lemma touches_only_dir:
  assumes "plan_dir j ctype ss rn re comps d a = Inr a'"
  shows "touches_only rn a a'"
proof -
  from assms obtain e where e: "py_getitem re d = Inr e" and
    body: "(case e of
         CStr custom_sha \<Rightarrow>
           bindE (foldE (\<lambda>(dir, cname) a.
                           if d = dir
                           then add_component j ctype rn d cname (Some custom_sha) a
                           else Inr a)
                    comps (reset_repo rn a))
             (\<lambda>acc1. Inr (if ss \<noteq> None
                          then acc1 \<lparr> overridden_repos := overridden_repos acc1 @ [rn] \<rparr>
                          else acc1))
       | CBool False \<Rightarrow>
           foldE (\<lambda>(dir, cname) a.
                    Inr (if dir = d
                         then a \<lparr> skipped_components :=
                                    skipped_components a @ [SkipCompList d comps] \<rparr>
                         else a))
             comps a
       | CDict dir_config \<Rightarrow>
           foldE (plan_component j ctype ss rn dir_config)
             comps (reset_repo rn a)
       | _ \<Rightarrow> Inr a) = Inr a'"
    unfolding plan_dir_def by (erule bindE_Inr_E)
  show ?thesis
  proof (cases e)
    case (CStr s)
    with body obtain a1 where
      f: "foldE (\<lambda>(dir, cname) a.
                           if d = dir
                           then add_component j ctype rn d cname (Some s) a
                           else Inr a) comps (reset_repo rn a) = Inr a1"
      and a': "a' = (if ss \<noteq> None then a1 \<lparr> overridden_repos := overridden_repos a1 @ [rn] \<rparr> else a1)"
      by (auto elim!: bindE_Inr_E)
    have "touches_only rn (reset_repo rn a) a1"
      using f by (rule touches_only_fold) (auto split: if_splits dest: touches_only_add)
    then have "touches_only rn a a1"
      by (rule touches_only_trans [OF touches_only_reset])
    then show ?thesis using a' by (simp add: touches_only_def)
  next
    case (CBool b)
    show ?thesis
    proof (cases b)
      case True
      with CBool body show ?thesis by simp
    next
      case False
      with CBool body have f: "foldE (\<lambda>(dir, cname) a.
                    Inr (if dir = d
                         then a \<lparr> skipped_components :=
                                    skipped_components a @ [SkipCompList d comps] \<rparr>
                         else a)) comps a = Inr a'" by simp
      show ?thesis
        using f by (rule touches_only_fold) (auto simp: touches_only_def split: if_splits)
    qed
  next
    case (CDict dc)
    with body have f: "foldE (plan_component j ctype ss rn dc) comps (reset_repo rn a) = Inr a'"
      by simp
    have "touches_only rn (reset_repo rn a) a'"
      using f by (rule touches_only_fold) (erule touches_only_component)
    then show ?thesis by (rule touches_only_trans [OF touches_only_reset])
  qed (use body in simp_all)
qed

lemma plan_repo_other:
  assumes "plan_repo E j ctype ss config (rn, comps) a = Inr a'"
      and "py_getitem config rn \<noteq> Inr (CBool False)"
  shows "touches_only rn a a'"
proof -
  from assms(1) obtain present re where
    p: "py_contains rn config = Inr present" and
    re: "(if present then py_getitem config rn else Inr (CBool True)) = Inr re" and
    body: "(if \<not> present \<or> re = CBool True then
            plan_whole_repo j ctype rn comps ss a
          else case re of
            CDict d \<Rightarrow>
              foldE (plan_dir j ctype ss rn re comps)
                (set_order E (map fst comps)) a
          | CStr custom_sha \<Rightarrow>
              bindE (plan_whole_repo j ctype rn comps (Some custom_sha) a)
                (\<lambda>acc1. Inr (if ss \<noteq> None
                             then acc1 \<lparr> overridden_repos := overridden_repos acc1 @ [rn] \<rparr>
                             else acc1))
          | CBool False \<Rightarrow> Inr (a \<lparr> skipped_repos := skipped_repos a @ [rn] \<rparr>)
          | _ \<Rightarrow> Inl (UserWarning ''repo has an invalid entry in .nf-core.yml'')) = Inr a'"
    unfolding plan_repo_def by (auto elim!: bindE_Inr_E)
  show ?thesis
  proof (cases "\<not> present \<or> re = CBool True")
    case True
    with body show ?thesis by (auto dest: touches_only_whole)
  next
    case False
    with re assms(2) have nf: "re \<noteq> CBool False" by auto
    show ?thesis
    proof (cases re)
      case (CDict d)
      with body False have "foldE (plan_dir j ctype ss rn re comps) (set_order E (map fst comps)) a = Inr a'"
        by simp
      then show ?thesis by (rule touches_only_fold) (erule touches_only_dir)
    next
      case (CStr s)
      with body False obtain a1 where "plan_whole_repo j ctype rn comps (Some s) a = Inr a1"
        and "a' = (if ss \<noteq> None then a1 \<lparr> overridden_repos := overridden_repos a1 @ [rn] \<rparr> else a1)"
        by (auto elim!: bindE_Inr_E)
      then show ?thesis
        using touches_only_whole [of j ctype rn comps "Some s" a a1] by (simp add: touches_only_def)
    qed (use body False nf in \<open>auto split: bool.splits\<close>)
  qed
qed

lemma plan_repo_False:
  assumes "py_getitem config rn = Inr (CBool False)"
  shows "plan_repo E j ctype ss config (rn, comps) a = Inr (a \<lparr> skipped_repos := skipped_repos a @ [rn] \<rparr>)"
proof -
  from assms obtain kvs where "config = CDict kvs" and "map_of kvs rn = Some (CBool False)"
    by (cases config) (auto split: option.splits)
  then show ?thesis
    by (simp add: plan_repo_def bindE_def map_of_eq_None_iff [symmetric])
qed

lemma plan_fold_skips:
  assumes "foldE (plan_repo E j ctype ss config) xs a = Inr a'"
      and "py_getitem config R = Inr (CBool False)"
      and "map_of (components_info a) R = None"
  shows "map_of (components_info a') R = None
       \<and> (R \<in> fst ` set xs \<or> R \<in> set (skipped_repos a) \<longrightarrow> R \<in> set (skipped_repos a'))"
  using assms
proof (induction xs arbitrary: a)
  case Nil
  then show ?case by simp
next
  case (Cons x xs)
  obtain rn comps where x: "x = (rn, comps)" by (cases x)
  from Cons.prems(1) obtain a1 where
    step: "plan_repo E j ctype ss config (rn, comps) a = Inr a1" and
    rest: "foldE (plan_repo E j ctype ss config) xs a1 = Inr a'"
    by (auto simp: x split: sum.splits)
  show ?case
  proof (cases "rn = R")
    case True
    with step Cons.prems(2) have a1: "a1 = a \<lparr> skipped_repos := skipped_repos a @ [R] \<rparr>"
      by (simp add: plan_repo_False)
    with Cons.IH [OF rest Cons.prems(2)] Cons.prems(3) show ?thesis by simp
  next
    case False
    have "py_getitem config rn \<noteq> Inr (CBool False) \<or> py_getitem config rn = Inr (CBool False)" by blast
    then have t: "map_of (components_info a1) R = map_of (components_info a) R
        \<and> set (skipped_repos a) \<subseteq> set (skipped_repos a1)"
    proof
      assume "py_getitem config rn \<noteq> Inr (CBool False)"
      from plan_repo_other [OF step this] False show ?thesis
        by (simp add: touches_only_def)
    next
      assume "py_getitem config rn = Inr (CBool False)"
      with step show ?thesis by (auto simp: plan_repo_False)
    qed
    with Cons.IH [OF rest Cons.prems(2)] Cons.prems(3) False x show ?thesis by auto
  qed
qed

lemma group_target_keys:
  "fst ` fst ` set (group_target b0 rn t rb) \<subseteq> insert rn (fst ` fst ` set rb)"
  by (cases t) (auto simp: group_target_def Let_def AList.dom_update image_Un)

lemma fold_keys:
  assumes "\<And>x rb. x \<in> set xs \<Longrightarrow> fst ` fst ` set (f x rb) \<subseteq> K \<union> fst ` fst ` set rb"
  shows "fst ` fst ` set (fold f xs rb) \<subseteq> K \<union> fst ` fst ` set rb"
  using assms
proof (induction xs arbitrary: rb)
  case Nil
  then show ?case by simp
next
  case (Cons x xs)
  have "fst ` fst ` set (fold f xs (f x rb)) \<subseteq> K \<union> fst ` fst ` set (f x rb)"
    using Cons.IH Cons.prems by simp
  moreover have "fst ` fst ` set (f x rb) \<subseteq> K \<union> fst ` fst ` set rb"
    using Cons.prems by simp
  ultimately show ?case by auto
qed

lemma fold_keys_outer:
  assumes "\<And>rn content rb. fst ` fst ` set (G rn content rb) \<subseteq> {rn} \<union> fst ` fst ` set rb"
  shows "fst ` fst ` set (fold (\<lambda>(rn, content). G rn content) ci rb) \<subseteq> fst ` set ci \<union> fst ` fst ` set rb"
proof (induction ci arbitrary: rb)
  case Nil
  then show ?case by simp
next
  case (Cons x ci)
  obtain rn content where x: "x = (rn, content)" by (cases x)
  have "fst ` fst ` set (fold (\<lambda>(rn, content). G rn content) ci (G rn content rb))
          \<subseteq> fst ` set ci \<union> fst ` fst ` set (G rn content rb)"
    by (rule Cons.IH)
  also have "\<dots> \<subseteq> fst ` set ci \<union> ({rn} \<union> fst ` fst ` set rb)"
    using assms [of rn content rb] by blast
  finally show ?case by (auto simp: x)
qed

lemma group_keys:
  "fst ` fst ` set (group_by_repo_branch b0 ci) \<subseteq> fst ` set ci"
proof -
  have inner: "fst ` fst ` set (fold (group_target b0 rn) comps rb) \<subseteq> {rn} \<union> fst ` fst ` set rb"
    for rn comps rb
    by (rule fold_keys) (use group_target_keys [of b0 rn] in simp)
  have mid: "fst ` fst ` set (fold (\<lambda>(component_dir, comps). fold (group_target b0 rn) comps) content rb)
               \<subseteq> {rn} \<union> fst ` fst ` set rb" for rn content rb
    by (rule fold_keys) (use inner in \<open>auto split: prod.splits\<close>)
  show ?thesis
    unfolding group_by_repo_branch_def
    using fold_keys_outer [of "\<lambda>rn content. fold (\<lambda>(component_dir, comps). fold (group_target b0 rn) comps) content" ci "[]", OF mid]
    by simp
qed

lemma create_repos_props:
  assumes "create_repos E rb acc w = Some (r, w')"
  shows "(\<exists>new. logs w' = logs w @ new
            \<and> (\<forall>x\<in>set new. \<not> is_SkippingRepos x
                  \<and> (\<forall>u. skips_source_of u x \<longrightarrow> u \<in> fst ` fst ` set rb)))
       \<and> component_type w' = component_type w \<and> mj w' = mj w
       \<and> (\<forall>res. r = Inr res \<longrightarrow>
             (\<forall>x\<in>set res. x \<in> set acc \<or> remote_url (fst x) \<in> fst ` fst ` set rb))"
  using assms
proof (induction rb arbitrary: acc w r w')
  case Nil
  then show ?case by (auto simp: ret_def)
next
  case (Cons g rest)
  obtain repo_url b comps_shas where g: "g = ((repo_url, b), comps_shas)"
    by (cases g) auto
  show ?case
  proof (cases "ModulesRepo E repo_url b")
    case (Inl e)
    then have le: "is_LookupError e" by (auto simp: ModulesRepo_def split: if_splits)
    let ?w2 = "w \<lparr> logs := logs w @ [(Warning, RepoLookupFailed e)] @ [(Info, SkippingIn (component_type w) repo_url)] \<rparr>"
    from Cons.prems Inl le have rec: "create_repos E rest acc ?w2 = Some (r, w')"
      by (simp add: g)
    from Cons.IH [OF rec] show ?thesis
      by (auto simp: g)
  next
    case (Inr rp)
    then have url: "remote_url rp = repo_url" by (auto simp: ModulesRepo_def split: if_splits)
    from Cons.prems Inr have rec: "create_repos E rest (acc @ [(rp, comps_shas)]) w = Some (r, w')"
      by (simp add: g)
    from Cons.IH [OF rec] have
      l: "\<exists>new. logs w' = logs w @ new
            \<and> (\<forall>x\<in>set new. \<not> is_SkippingRepos x
                  \<and> (\<forall>u. skips_source_of u x \<longrightarrow> u \<in> fst ` fst ` set rest))"
      and f: "component_type w' = component_type w" "mj w' = mj w"
      and res: "\<forall>res. r = Inr res \<longrightarrow>
             (\<forall>x\<in>set res. x \<in> set (acc @ [(rp, comps_shas)]) \<or> remote_url (fst x) \<in> fst ` fst ` set rest)"
      by blast+
    have "\<forall>res. r = Inr res \<longrightarrow>
             (\<forall>x\<in>set res. x \<in> set acc \<or> remote_url (fst x) \<in> fst ` fst ` set (g # rest))"
    proof (intro allI impI ballI)
      fix res x assume "r = Inr res" "x \<in> set res"
      with res have "x \<in> set (acc @ [(rp, comps_shas)]) \<or> remote_url (fst x) \<in> fst ` fst ` set rest"
        by blast
      then show "x \<in> set acc \<or> remote_url (fst x) \<in> fst ` fst ` set (g # rest)"
        using url by (auto simp: g)
    qed
    moreover from l have "\<exists>new. logs w' = logs w @ new
            \<and> (\<forall>x\<in>set new. \<not> is_SkippingRepos x
                  \<and> (\<forall>u. skips_source_of u x \<longrightarrow> u \<in> fst ` fst ` set (g # rest)))"
      by auto
    ultimately show ?thesis using f by blast
  qed
qed

lemma drop_missing_props:
  assumes "drop_missing E xs w = Some (r, w')"
  shows "(\<exists>new. logs w' = logs w @ new
            \<and> (\<forall>x\<in>set new. \<not> is_SkippingRepos x \<and> (\<forall>u. \<not> skips_source_of u x)))
       \<and> component_type w' = component_type w \<and> mj w' = mj w
       \<and> (\<forall>res. r = Inr res \<longrightarrow> set res \<subseteq> set xs)"
  using assms
proof (induction xs arbitrary: w r w')
  case Nil
  then show ?case by (auto simp: ret_def)
next
  case (Cons x rest)
  obtain repo cname sha1 where x: "x = (repo, cname, sha1)" by (cases x) auto
  consider (gone) "\<not> component_exists E repo cname (component_type w)"
    | (nosha) "component_exists E repo cname (component_type w)"
        "sha1 \<noteq> None \<and> \<not> sha_exists_on_branch E repo (the sha1)"
    | (keep) "component_exists E repo cname (component_type w)"
        "\<not> (sha1 \<noteq> None \<and> \<not> sha_exists_on_branch E repo (the sha1))"
    by blast
  then show ?case
  proof cases
    case gone
    with Cons.prems have rec: "drop_missing E rest
        (w \<lparr> logs := logs w @ [(Warning, ComponentNotExist cname (remote_url repo))] \<rparr>) = Some (r, w')"
      by (simp add: x)
    from Cons.IH [OF rec] show ?thesis by (auto simp: x)
  next
    case nosha
    with Cons.prems have rec: "drop_missing E rest
        (w \<lparr> logs := logs w @ [(Warning, ShaNotOnBranch (the sha1) (branch repo) (remote_url repo) cname)] \<rparr>)
          = Some (r, w')"
      by (simp add: x)
    from Cons.IH [OF rec] show ?thesis by (auto simp: x)
  next
    case keep
    with Cons.prems have b: "bnd (drop_missing E rest) (\<lambda>kept. ret ((repo, cname, sha1) # kept)) w = Some (r, w')"
      by (auto simp: x)
    then obtain r1 where rec: "drop_missing E rest w = Some (r1, w')"
      and r: "r = (case r1 of Inl e \<Rightarrow> Inl e | Inr kept \<Rightarrow> Inr ((repo, cname, sha1) # kept))"
      by (auto simp: bnd_def ret_def split: option.splits sum.splits prod.splits)
    from Cons.IH [OF rec] r show ?thesis by (auto simp: x split: sum.splits)
  qed
qed

lemma log_summaries_props:
  assumes "log_summaries acc w = Some (r, w')"
  shows "r = Inr () \<and> component_type w' = component_type w \<and> mj w' = mj w
       \<and> (\<exists>new. logs w' = logs w @ new
             \<and> filter is_SkippingRepos new =
                 (if skipped_repos acc \<noteq> [] then [(Info, SkippingRepos (component_type w) (skipped_repos acc))] else [])
             \<and> (\<forall>x\<in>set new. \<forall>u. \<not> skips_source_of u x))"
  using assms
  by (auto simp: log_summaries_def log_msg_def ret_def bnd_def split: if_splits)

lemma ex_bulk_first_loop:
  assumes "mj w = ex_json" and "component_type w = ''modules''"
  shows "get_all_components_info ex_env branch0 w =
     bnd (lift (plan_repo ex_env ex_json ''modules'' (sha w) (update_config w)
                  (''nfcore.git'', [(''nf-core'', ''fastqc'')]) empty_acc)) (\<lambda>acc.
          bnd (log_summaries acc) (\<lambda>_.
          bnd (create_repos ex_env (group_by_repo_branch branch0 (components_info acc)) []) (\<lambda>repo_objs_comps.
          bnd (drop_missing ex_env
                 (concat (map (\<lambda>(repo, comps_shas). map (\<lambda>(cname, sha1). (repo, cname, sha1)) comps_shas)
                            repo_objs_comps))) (\<lambda>kept.
          (\<lambda>w1. ret (map (\<lambda>(repo, cname, sha1).
                            (repo, cname, sha1, get_patch_fn (mj w1) cname (remote_url repo) (repo_path repo)))
                         kept) w1))))) w"
  by (simp add: get_all_components_info_def assms ex_components bnd_def lift_def bindE_def split: sum.splits)

lemma ex_bulk_empty_plan:
  assumes "mj w = ex_json" and "component_type w = ''modules''"
      and "plan_repo ex_env ex_json ''modules'' (sha w) (update_config w)
             (''nfcore.git'', [(''nf-core'', ''fastqc'')]) empty_acc = Inr acc"
      and "components_info acc = []"
  shows "get_all_components_info ex_env branch0 w =
           bnd (log_summaries acc) (\<lambda>_. ret []) w"
proof -
  have r: "log_summaries acc w = Some (Inr (), w2) \<Longrightarrow> mj w2 = ex_json" for w2
    using log_summaries_props [of acc w "Inr ()" w2] assms(1) by simp
  have "log_summaries acc w = None \<or> (\<exists>w2. log_summaries acc w = Some (Inr (), w2))"
    using log_summaries_props [of acc w] by (cases "log_summaries acc w") auto
  then show ?thesis
    by (auto simp: ex_bulk_first_loop assms group_by_repo_branch_def bnd_def ret_def lift_def)
qed

text \<open>
  C7. On the bulk path, when the override entry of a repo of Persisted State is
  boolean false and the plan is returned, no entry of the plan is of that repo,
  exactly one summary line of skipped repos is logged by the call, that line names
  the repo, and no other line skips the repo's registry source.
\<close>

theorem bulk_skips_disabled_repo:
  assumes "get_all_components_info E branch0 w = Some (Inr plan, w')"
      and "R \<in> fst ` set (get_all_components (mj w) (component_type w))"
      and "py_getitem (update_config w) R = Inr (CBool False)"
  shows "(\<forall>e\<in>set plan. remote_url (fst e) \<noteq> R)
       \<and> (\<exists>new rs. logs w' = logs w @ new \<and> R \<in> set rs
            \<and> filter is_SkippingRepos new = [(Info, SkippingRepos (component_type w) rs)]
            \<and> (\<forall>x\<in>set new. \<not> skips_source_of R x))"
proof -
  from assms(1) obtain acc w1 w2 rc w3 kept w4 where
    first: "foldE (plan_repo E (mj w) (component_type w) (sha w) (update_config w))
              (get_all_components (mj w) (component_type w)) empty_acc = Inr acc" and
    sums: "log_summaries acc w = Some (Inr (), w2)" and
    create: "create_repos E (group_by_repo_branch branch0 (components_info acc)) [] w2 = Some (Inr rc, w3)" and
    dropm: "drop_missing E
              (concat (map (\<lambda>(repo, comps_shas). map (\<lambda>(cname, sha1). (repo, cname, sha1)) comps_shas) rc))
              w3 = Some (Inr kept, w4)" and
    plan: "plan = map (\<lambda>(repo, cname, sha1).
                       (repo, cname, sha1, get_patch_fn (mj w4) cname (remote_url repo) (repo_path repo))) kept" and
    w': "w' = w4"
    unfolding get_all_components_info_def
    by (auto simp: lift_def ret_def split: sum.splits elim!: bnd_Inr_E)
  from plan_fold_skips [OF first assms(3)] assms(2)
  have noR: "map_of (components_info acc) R = None" and skipped: "R \<in> set (skipped_repos acc)"
    by (simp_all add: empty_acc_def)
  from noR have noR': "R \<notin> fst ` set (components_info acc)"
    by (simp add: map_of_eq_None_iff)
  with group_keys [of branch0 "components_info acc"]
  have noRg: "R \<notin> fst ` fst ` set (group_by_repo_branch branch0 (components_info acc))"
    by blast
  from skipped have ne: "skipped_repos acc \<noteq> []" by auto
  from log_summaries_props [OF sums] ne obtain n1 where
    n1: "logs w2 = logs w @ n1"
        "filter is_SkippingRepos n1 = [(Info, SkippingRepos (component_type w) (skipped_repos acc))]"
        "\<forall>x\<in>set n1. \<forall>u. \<not> skips_source_of u x"
    and t2: "component_type w2 = component_type w"
    by auto
  from create_repos_props [OF create] noRg obtain n2 where
    n2: "logs w3 = logs w2 @ n2" "\<forall>x\<in>set n2. \<not> is_SkippingRepos x \<and> \<not> skips_source_of R x"
    and rc: "\<forall>x\<in>set rc. remote_url (fst x) \<noteq> R"
    by fastforce
  from drop_missing_props [OF dropm] obtain n3 where
    n3: "logs w4 = logs w3 @ n3" "\<forall>x\<in>set n3. \<not> is_SkippingRepos x \<and> \<not> skips_source_of R x"
    and kept: "set kept \<subseteq> set (concat (map (\<lambda>(repo, comps_shas). map (\<lambda>(cname, sha1). (repo, cname, sha1)) comps_shas) rc))"
    by auto
  have "\<forall>e\<in>set plan. remote_url (fst e) \<noteq> R"
    using kept rc unfolding plan by fastforce
  moreover have "logs w' = logs w @ (n1 @ n2 @ n3)"
    using n1(1) n2(1) n3(1) w' by simp
  moreover have "filter is_SkippingRepos (n1 @ n2 @ n3)
                   = [(Info, SkippingRepos (component_type w) (skipped_repos acc))]"
    using n1(2) n2(2) n3(2) by (simp add: filter_empty_conv)
  moreover have "\<forall>x\<in>set (n1 @ n2 @ n3). \<not> skips_source_of R x"
    using n1(3) n2(2) n3(2) by auto
  ultimately show ?thesis using skipped by blast
qed

lemma ex_bulk_disabled:
  "get_all_components_info ex_env None (ex_world \<lparr> update_config := CDict [(''nfcore.git'', CBool False)] \<rparr>)
     = Some (Inr [], ex_world \<lparr> update_config := CDict [(''nfcore.git'', CBool False)],
                                logs := [(Info, SkippingRepos ''modules'' [''nfcore.git''])] \<rparr>)"
  by (subst ex_bulk_empty_plan [where acc = "empty_acc \<lparr> skipped_repos := [''nfcore.git''] \<rparr>"])
     (simp_all add: ex_fields plan_repo_def bindE_def empty_acc_def log_summaries_def bnd_def
        log_msg_def ret_def)

theorem bulk_skips_disabled_repo_witness:
  "get_all_components_info ex_env None (ex_world \<lparr> update_config := CDict [(''nfcore.git'', CBool False)] \<rparr>)
     = Some (Inr [], ex_world \<lparr> update_config := CDict [(''nfcore.git'', CBool False)],
                                logs := [(Info, SkippingRepos ''modules'' [''nfcore.git''])] \<rparr>)
   \<and> (\<exists>new rs. [(Info, SkippingRepos ''modules'' [''nfcore.git''])] = new \<and> ''nfcore.git'' \<in> set rs
            \<and> filter is_SkippingRepos new = [(Info, SkippingRepos ''modules'' rs)])"
proof -
  have mem: "''nfcore.git'' \<in> fst ` set (get_all_components
               (mj (ex_world \<lparr> update_config := CDict [(''nfcore.git'', CBool False)] \<rparr>))
               (component_type (ex_world \<lparr> update_config := CDict [(''nfcore.git'', CBool False)] \<rparr>)))"
    by (simp add: ex_fields ex_components)
  have entry: "py_getitem (update_config (ex_world \<lparr> update_config := CDict [(''nfcore.git'', CBool False)] \<rparr>))
                 ''nfcore.git'' = Inr (CBool False)"
    by simp
  from bulk_skips_disabled_repo [OF ex_bulk_disabled mem entry]
  show ?thesis
    by (simp add: ex_bulk_disabled ex_fields)
qed

text \<open>
  C5 at its failing inputs. Under a repo whose entry is a mapping, a directory whose
  entry is \<open>true\<close> is dropped from the plan without a skip line or an error (the
  claim: updated normally), a directory whose entry is a number is dropped the same
  way (the claim: a fatal configuration error), and a directory with no entry raises
  KeyError (the claim: updated normally). At the repo level \<open>true\<close> does put the
  component into the plan.
\<close>

theorem bulk_directory_level_entries:
  "get_all_components_info ex_env None
       (ex_world \<lparr> update_config := CDict [(''nfcore.git'', CDict [(''nf-core'', CBool True)])] \<rparr>)
     = Some (Inr [], ex_world \<lparr> update_config := CDict [(''nfcore.git'', CDict [(''nf-core'', CBool True)])] \<rparr>)
   \<and> get_all_components_info ex_env None
       (ex_world \<lparr> update_config := CDict [(''nfcore.git'', CDict [(''nf-core'', CNum 5)])] \<rparr>)
     = Some (Inr [], ex_world \<lparr> update_config := CDict [(''nfcore.git'', CDict [(''nf-core'', CNum 5)])] \<rparr>)
   \<and> get_all_components_info ex_env None
       (ex_world \<lparr> update_config := CDict [(''nfcore.git'', CDict [])] \<rparr>)
     = Some (Inl KeyError, ex_world \<lparr> update_config := CDict [(''nfcore.git'', CDict [])] \<rparr>)
   \<and> get_all_components_info ex_env None
       (ex_world \<lparr> update_config := CDict [(''nfcore.git'', CBool True)] \<rparr>)
     = Some (Inr [(ex_repo, ''fastqc'', None, None)],
             ex_world \<lparr> update_config := CDict [(''nfcore.git'', CBool True)] \<rparr>)"
proof -
  have a: "get_all_components_info ex_env None
       (ex_world \<lparr> update_config := CDict [(''nfcore.git'', CDict [(''nf-core'', CBool True)])] \<rparr>)
     = Some (Inr [], ex_world \<lparr> update_config := CDict [(''nfcore.git'', CDict [(''nf-core'', CBool True)])] \<rparr>)"
    by (subst ex_bulk_empty_plan [where acc = empty_acc])
       (simp_all add: ex_fields plan_repo_def plan_dir_def bindE_def empty_acc_def log_summaries_def
          bnd_def ret_def ex_env_fields)
  have b: "get_all_components_info ex_env None
       (ex_world \<lparr> update_config := CDict [(''nfcore.git'', CDict [(''nf-core'', CNum 5)])] \<rparr>)
     = Some (Inr [], ex_world \<lparr> update_config := CDict [(''nfcore.git'', CDict [(''nf-core'', CNum 5)])] \<rparr>)"
    by (subst ex_bulk_empty_plan [where acc = empty_acc])
       (simp_all add: ex_fields plan_repo_def plan_dir_def bindE_def empty_acc_def log_summaries_def
          bnd_def ret_def ex_env_fields)
  have c: "get_all_components_info ex_env None
       (ex_world \<lparr> update_config := CDict [(''nfcore.git'', CDict [])] \<rparr>)
     = Some (Inl KeyError, ex_world \<lparr> update_config := CDict [(''nfcore.git'', CDict [])] \<rparr>)"
    by (simp add: ex_bulk_first_loop ex_fields plan_repo_def plan_dir_def bindE_def ex_env_fields lift_def bnd_def)
  have d: "get_all_components_info ex_env None
       (ex_world \<lparr> update_config := CDict [(''nfcore.git'', CBool True)] \<rparr>)
     = Some (Inr [(ex_repo, ''fastqc'', None, None)],
             ex_world \<lparr> update_config := CDict [(''nfcore.git'', CBool True)] \<rparr>)"
    by (simp add: ex_bulk_first_loop ex_fields plan_repo_def plan_whole_repo_def add_component_def
          reset_repo_def ex_branch bindE_def empty_acc_def log_summaries_def bnd_def ret_def
          group_by_repo_branch_def group_target_def ModulesRepo_def ex_env_fields ex_repo_def
          ex_patch_fn lift_def)
  from a b c d show ?thesis by blast
qed


section \<open>The diff file\<close>

lemma diff_file_loop_props:
  assumes "diff_file_loop p0 w = Some (Inr p, w')"
  shows "files w' p = None
       \<and> (\<exists>used. answers w = used @ answers w' \<and> (files w p \<noteq> None \<longrightarrow> AConfirm True \<in> set used))
       \<and> (\<forall>q. q \<noteq> p \<longrightarrow> files w' q = files w q)
       \<and> save_diff_fn w' = save_diff_fn w"
  using assms
proof (induction p0 w rule: diff_file_loop.induct)
  case (1 p0 w)
  show ?case
  proof (cases "files w p0")
    case None
    with "1.prems" show ?thesis
      by (simp add: diff_file_loop.simps ret_def)
  next
    case (Some node)
    show ?thesis
    proof (cases "answers w")
      case Nil
      with "1.prems" Some show ?thesis by (simp add: diff_file_loop.simps)
    next
      case (Cons a rest)
      show ?thesis
      proof (cases a)
        case (AConfirm b)
        show ?thesis
        proof (cases b)
          case True
          with "1.prems" Some Cons AConfirm
          have r: "bnd (os_remove p0) (\<lambda>_. ret p0) (w \<lparr> answers := rest \<rparr>) = Some (Inr p, w')"
            by (simp add: diff_file_loop.simps)
          then obtain chunks where "node = RegularFile chunks"
            using Some by (cases node) (auto simp: bnd_def os_remove_def raise_def)
          with r Some have "p = p0" and "w' = w \<lparr> answers := rest, files := (files w)(p0 := None) \<rparr>"
            by (auto simp: bnd_def os_remove_def ret_def)
          with Cons AConfirm True show ?thesis
            by (auto intro: exI [of _ "[AConfirm True]"])
        next
          case False
          show ?thesis
          proof (cases rest)
            case Nil
            with "1.prems" Some Cons AConfirm False show ?thesis by (simp add: diff_file_loop.simps)
          next
            case (Cons a2 rest2)
            note c2 = Cons
            show ?thesis
            proof (cases a2)
              case (AText q)
              with "1.prems" Some \<open>answers w = a # rest\<close> AConfirm False c2
              have rec: "diff_file_loop (Path q) (w \<lparr> answers := rest2 \<rparr>) = Some (Inr p, w')"
                by (simp add: diff_file_loop.simps)
              from "1.IH" [OF Some \<open>answers w = a # rest\<close> _ _ c2 _ rec] AConfirm False AText
              have ih: "files w' p = None
                 \<and> (\<exists>used. rest2 = used @ answers w' \<and> (files w p \<noteq> None \<longrightarrow> AConfirm True \<in> set used))
                 \<and> (\<forall>q. q \<noteq> p \<longrightarrow> files w' q = files w q)
                 \<and> save_diff_fn w' = save_diff_fn w"
                by simp
              then obtain used where "rest2 = used @ answers w'"
                 "files w p \<noteq> None \<longrightarrow> AConfirm True \<in> set used" by blast
              then have "answers w = ([AConfirm False, AText q] @ used) @ answers w'
                  \<and> (files w p \<noteq> None \<longrightarrow> AConfirm True \<in> set ([AConfirm False, AText q] @ used))"
                using \<open>answers w = a # rest\<close> AConfirm False c2 AText by simp
              with ih show ?thesis by blast
            qed (use "1.prems" Some \<open>answers w = a # rest\<close> AConfirm False c2 in \<open>simp_all add: diff_file_loop.simps\<close>)
          qed
        qed
      qed (use "1.prems" Some Cons in \<open>simp_all add: diff_file_loop.simps\<close>)
    qed
  qed
qed

lemma ask_text_Inr:
  "ask_text w = Some (Inr s, w') \<Longrightarrow> answers w = AText s # answers w' \<and> files w' = files w"
  by (auto simp: ask_text_def split: list.splits answer.splits)

text \<open>
  C10. When \<open>setup_diff_file\<close> returns, \<open>save_diff_fn\<close> is a path whose file exists
  and is a new, empty regular file; if a file of that name was there before the call,
  the user confirmed its removal; every other file is as before. A name that exists
  and is not confirmed for removal is asked for again.
\<close>

theorem setup_diff_file_fresh:
  assumes "setup_diff_file w = Some (Inr (), w')"
  shows "\<exists>p used. save_diff_fn w' = SPath p \<and> files w' p = Some (RegularFile [])
           \<and> answers w = used @ answers w'
           \<and> (files w p \<noteq> None \<longrightarrow> AConfirm True \<in> set used)
           \<and> (\<forall>q. q \<noteq> p \<longrightarrow> files w' q = files w q)"
proof -
  from assms obtain fn w1 p w2 where
    first: "(case save_diff_fn w of SBool True \<Rightarrow> ask_text w | SPath p \<Rightarrow> ret p w | _ \<Rightarrow> raise TypeError w)
              = Some (Inr fn, w1)" and
    loop: "diff_file_loop (Path fn) w1 = Some (Inr p, w2)" and
    last: "touch p (w2 \<lparr> save_diff_fn := SPath p \<rparr>) = Some (Inr (), w')"
    unfolding setup_diff_file_def by (auto elim!: bnd_Inr_E simp: modify_def)
  from first have "\<exists>pre. answers w = pre @ answers w1 \<and> files w1 = files w"
  proof (cases "save_diff_fn w")
    case (SBool b)
    with first have "ask_text w = Some (Inr fn, w1)"
      by (cases b) (auto simp: raise_def)
    from ask_text_Inr [OF this] show ?thesis by (intro exI [of _ "[AText fn]"]) simp
  next
    case (SPath q)
    with first show ?thesis by (intro exI [of _ "[]"]) (simp add: ret_def)
  qed (simp add: raise_def)
  then obtain pre where pre: "answers w = pre @ answers w1" "files w1 = files w"
    by blast
  from diff_file_loop_props [OF loop] obtain used where
    l: "files w2 p = None" "answers w1 = used @ answers w2"
       "files w1 p \<noteq> None \<longrightarrow> AConfirm True \<in> set used"
       "\<forall>q. q \<noteq> p \<longrightarrow> files w2 q = files w1 q"
    by blast
  from last l(1) have w': "w' = w2 \<lparr> save_diff_fn := SPath p, files := (files w2)(p \<mapsto> RegularFile []) \<rparr>"
    by (simp add: touch_def)
  have "answers w = (pre @ used) @ answers w'"
    using pre(1) l(2) w' by simp
  moreover have "files w p \<noteq> None \<longrightarrow> AConfirm True \<in> set (pre @ used)"
    using l(3) pre(2) by simp
  moreover have "\<forall>q. q \<noteq> p \<longrightarrow> files w' q = files w q"
    using l(4) pre(2) w' by simp
  moreover have "save_diff_fn w' = SPath p" "files w' p = Some (RegularFile [])"
    using w' by simp_all
  ultimately show ?thesis by blast
qed

lemma ex_setup_diff_file:
  "setup_diff_file (ex_world \<lparr> save_diff_fn := SPath ''out.diff'',
                               files := [''out.diff'' \<mapsto> RegularFile [''stale'']],
                               answers := [AConfirm True] \<rparr>)
   = Some (Inr (), ex_world \<lparr> save_diff_fn := SPath ''out.diff'',
                               files := [''out.diff'' \<mapsto> RegularFile []],
                               answers := [] \<rparr>)"
  by (simp add: setup_diff_file_def bnd_def ret_def Path_def diff_file_loop.simps os_remove_def
        modify_def touch_def)

theorem setup_diff_file_fresh_witness:
  "setup_diff_file (ex_world \<lparr> save_diff_fn := SPath ''out.diff'',
                               files := [''out.diff'' \<mapsto> RegularFile [''stale'']],
                               answers := [AConfirm True] \<rparr>)
   = Some (Inr (), ex_world \<lparr> save_diff_fn := SPath ''out.diff'',
                               files := [''out.diff'' \<mapsto> RegularFile []],
                               answers := [] \<rparr>)
   \<and> (\<exists>p used. SPath ''out.diff'' = SPath p
          \<and> [''out.diff'' \<mapsto> RegularFile []] p = Some (RegularFile [])
          \<and> [AConfirm True] = used
          \<and> AConfirm True \<in> set used)"
  using setup_diff_file_fresh [OF ex_setup_diff_file]
  by (simp add: ex_setup_diff_file)

section \<open>Patch reconciliation and the result of the run\<close>

lemma map_of_al_modify: "map_of (al_modify k f al) k = Some (f (map_of al k))"
  by (simp add: al_modify_def AList.update_conv')

lemma version_after_update:
  "get_component_version (mj_update_mem j ctype repo cname version marker) ctype cname
     (remote_url repo) (repo_path repo) = Some version"
  by (simp add: get_component_version_def mj_lookup_def mj_update_mem_def map_of_al_modify
        new_record_def)

lemma try_apply_patch_success:
  assumes "installed w (fst patch) = Some pdir" and "pdir (snd patch) = Some text"
      and "fst patch = component_dir" and "differ_apply E text staged = Some new_files"
  shows "try_apply_patch E cname rp patch component_dir staged w =
           Some (Inr (True, (staged ++ new_files)(snd patch \<mapsto> differ_diff E staged (staged ++ new_files))),
             w \<lparr> logs := logs w @ [(Info, FoundPatch rp cname), (Debug, WritingPatchedFiles),
                                   (Debug, RegeneratingPatch), (Debug, OverwritingInstalled)],
                 mj := (mj w) \<lparr> patches := AList.update (cname, remote_url (modules_repo w), rp) patch (patches (mj w)) \<rparr>,
                 mj_disk := (mj w) \<lparr> patches := AList.update (cname, remote_url (modules_repo w), rp) patch (patches (mj w)) \<rparr> \<rparr>)"
  using assms
  by (simp add: try_apply_patch_def read_patch_def relative_to_def add_patch_entry_def
        bnd_def ret_def log_msg_def lift_def Let_def)

lemma try_apply_patch_failure:
  assumes "installed w (fst patch) = Some pdir" and "pdir (snd patch) = Some text"
      and "fst patch = component_dir" and "differ_apply E text staged = None"
  shows "try_apply_patch E cname rp patch component_dir staged w =
           Some (Inr (False, staged(snd patch \<mapsto> text)),
             w \<lparr> logs := logs w @ [(Info, FoundPatch rp cname), (Warning, FailedToApplyPatch rp cname)],
                 installed := (installed w)(fst patch \<mapsto> pdir(snd patch := None)) \<rparr>)"
  using assms
  by (simp add: try_apply_patch_def read_patch_def relative_to_def dir_of_def
        bnd_def ret_def log_msg_def lift_def modify_def)





lemma process_entry_patch_failure:
  assumes pd: "installed w (fst patch) = Some pdir" and pt: "pdir (snd patch) = Some text"
      and dir: "fst patch = [component_type w, repo_path repo, cname]"
      and ver: "sha1 \<noteq> None \<or> \<not> prompt w"
      and v: "v = (case sha1 of Some s \<Rightarrow> s
                   | None \<Rightarrow> get_latest_component_version E repo cname (component_type w))"
      and newer: "force w \<or> get_component_version (mj w) (component_type w) cname
                      (remote_url repo) (repo_path repo) \<noteq> Some v"
      and staged: "install_component_files E (component_type w) cname v repo = Some staged"
      and fails: "differ_apply E text staged = None"
  shows "process_entry upd E (repo, cname, sha1, Some patch) (ev, aps) w =
           bnd (present_diff E repo cname (fst patch) (staged(snd patch \<mapsto> text)) (Some False)
                  (show_diff w = Some True \<or> truthy_save_diff (save_diff_fn w)))
             (\<lambda>dry_run1.
                bnd (install_or_record upd repo cname v (staged(snd patch \<mapsto> text)) dry_run1)
                  (\<lambda>_. ret (ev, False)))
             (w \<lparr> installed := (installed w)(fst patch \<mapsto> pdir(snd patch := None)),
                  logs := logs w @ [(Info, FoundPatch (repo_path repo) cname),
                                    (Warning, FailedToApplyPatch (repo_path repo) cname),
                                    (Warning, FailedToPatch (fst patch))] \<rparr>)"
proof -
  have rv: "resolve_version E repo cname sha1 w = Some (Inr v, w)"
    using ver v by (auto simp: resolve_version_def ret_def split: option.splits)
  have tap: "try_apply_patch E cname (repo_path repo) patch (fst patch) staged w =
           Some (Inr (False, staged(snd patch \<mapsto> text)),
             w \<lparr> logs := logs w @ [(Info, FoundPatch (repo_path repo) cname),
                                   (Warning, FailedToApplyPatch (repo_path repo) cname)],
                 installed := (installed w)(fst patch \<mapsto> pdir(snd patch := None)) \<rparr>)"
    by (rule try_apply_patch_failure [OF pd pt refl fails])
  have nc: "(get_component_version (mj w) (component_type w) cname (remote_url repo) (repo_path repo) \<noteq> None
             \<and> \<not> force w
             \<and> get_component_version (mj w) (component_type w) cname (remote_url repo) (repo_path repo) = Some v)
            = False"
    using newer by auto
  have step1: "bnd (resolve_version E repo cname sha1) f w = f v w" for f :: "string \<Rightarrow> world \<Rightarrow> (bool \<times> bool) res"
    by (simp add: bnd_def rv)
  show ?thesis
    unfolding process_entry_def Let_def prod.case dir [symmetric]
    apply (simp only: step1)
    apply (simp only: nc if_False)
    apply (simp add: staged bnd_def tap log_msg_def ret_def del: bnd_log)
    done
qed

text \<open>
  C6. When the recorded patch applies, \<open>try_apply_patch\<close> returns True; the staged
  content becomes the patched scratch copy together with the regenerated patch, which
  is the engine's diff from the pristine staged content to the patched scratch copy;
  the patch reference is recorded in Persisted State and written to disk; and, for an
  engine that round-trips on this pair, applying the regenerated patch to the pristine
  staged content gives the patched files again.
\<close>

theorem patch_success_regenerates:
  assumes "installed w (fst patch) = Some pdir" and "pdir (snd patch) = Some text"
      and "fst patch = component_dir" and "differ_apply E text staged = Some new_files"
  shows "\<exists>staged' w'.
           try_apply_patch E cname rp patch component_dir staged w = Some (Inr (True, staged'), w')
         \<and> staged' (snd patch) = Some (differ_diff E staged (staged ++ new_files))
         \<and> (\<forall>f. f \<noteq> snd patch \<longrightarrow> staged' f = (staged ++ new_files) f)
         \<and> get_patch_fn (mj w') cname (remote_url (modules_repo w)) rp = Some patch
         \<and> mj_disk w' = mj w'
         \<and> installed w' = installed w
         \<and> (round_trips E staged (staged ++ new_files) \<and> snd patch \<notin> dom (staged ++ new_files)
              \<longrightarrow> (\<exists>nf. differ_apply E (the (staged' (snd patch))) staged = Some nf
                        \<and> staged ++ nf = staged'(snd patch := None)))"
proof -
  let ?patched = "staged ++ new_files"
  let ?staged' = "?patched(snd patch \<mapsto> differ_diff E staged ?patched)"
  let ?j = "(mj w) \<lparr> patches := AList.update (cname, remote_url (modules_repo w), rp) patch (patches (mj w)) \<rparr>"
  let ?w' = "w \<lparr> logs := logs w @ [(Info, FoundPatch rp cname), (Debug, WritingPatchedFiles),
                                   (Debug, RegeneratingPatch), (Debug, OverwritingInstalled)],
                 mj := ?j, mj_disk := ?j \<rparr>"
  have run: "try_apply_patch E cname rp patch component_dir staged w = Some (Inr (True, ?staged'), ?w')"
    by (rule try_apply_patch_success [OF assms])
  have ref: "get_patch_fn (mj ?w') cname (remote_url (modules_repo w)) rp = Some patch"
    by (simp add: get_patch_fn_def AList.update_conv')
  have reapply: "\<exists>nf. differ_apply E (the (?staged' (snd patch))) staged = Some nf
                        \<and> staged ++ nf = ?staged'(snd patch := None)"
    if "round_trips E staged ?patched" and "snd patch \<notin> dom ?patched"
  proof -
    from that(1) obtain nf where "differ_apply E (differ_diff E staged ?patched) staged = Some nf"
      and "staged ++ nf = ?patched"
      unfolding round_trips_def by blast
    moreover have "?staged'(snd patch := None) = ?patched"
      using that(2) by (auto simp: fun_eq_iff dom_def)
    ultimately show ?thesis by simp
  qed
  show ?thesis
    apply (rule exI [of _ ?staged'], rule exI [of _ ?w'])
    using run ref reapply by simp
qed

lemma ex_patched_fields:
  "installed ex_world_patched (fst ex_patch) = Some [''main.nf'' \<mapsto> ''v1 edited'', ''fastqc.diff'' \<mapsto> ''edit'']"
  "mj ex_world_patched = ex_json_patched" "mj_disk ex_world_patched = ex_json_patched"
  "component_type ex_world_patched = ''modules''" "modules_repo ex_world_patched = ex_repo"
  "logs ex_world_patched = []" "answers ex_world_patched = []" "sha ex_world_patched = None"
  "prompt ex_world_patched = False" "force ex_world_patched = False"
  "show_diff ex_world_patched = Some False" "save_diff_fn ex_world_patched = SNone"
  "fst ex_patch = [''modules'', ''nf-core'', ''fastqc'']" "snd ex_patch = ''fastqc.diff''"
  by (simp_all add: ex_world_patched_def ex_patch_def ex_fields)

theorem patch_success_regenerates_witness:
  "\<exists>staged' w'.
      try_apply_patch ex_env_applies ''fastqc'' ''nf-core'' ex_patch [''modules'', ''nf-core'', ''fastqc'']
        [''main.nf'' \<mapsto> ''v2''] ex_world_patched = Some (Inr (True, staged'), w')
    \<and> staged' ''fastqc.diff'' = Some ''diff''
    \<and> staged' ''main.nf'' = Some ''v2 edited''
    \<and> get_patch_fn (mj w') ''fastqc'' ''nfcore.git'' ''nf-core'' = Some ex_patch
    \<and> mj_disk w' = mj w'
    \<and> (\<exists>nf. differ_apply ex_env_applies (the (staged' ''fastqc.diff'')) [''main.nf'' \<mapsto> ''v2''] = Some nf
            \<and> [''main.nf'' \<mapsto> ''v2''] ++ nf = staged'(''fastqc.diff'' := None))"
proof -
  have pfile: "[''main.nf'' \<mapsto> ''v1 edited'', ''fastqc.diff'' \<mapsto> ''edit''] (snd ex_patch) = Some ''edit''"
    by (simp add: ex_patched_fields)
  have applies: "differ_apply ex_env_applies ''edit'' [''main.nf'' \<mapsto> ''v2''] = Some [''main.nf'' \<mapsto> ''v2 edited'']"
    by (simp add: ex_env_applies_def)
  from patch_success_regenerates [OF ex_patched_fields(1) pfile ex_patched_fields(13) applies,
      of "''fastqc''" "''nf-core''"]
  obtain staged' w' where
    r: "try_apply_patch ex_env_applies ''fastqc'' ''nf-core'' ex_patch [''modules'', ''nf-core'', ''fastqc'']
        [''main.nf'' \<mapsto> ''v2''] ex_world_patched = Some (Inr (True, staged'), w')"
       "staged' (snd ex_patch) = Some (differ_diff ex_env_applies [''main.nf'' \<mapsto> ''v2'']
           ([''main.nf'' \<mapsto> ''v2''] ++ [''main.nf'' \<mapsto> ''v2 edited'']))"
       "\<forall>f. f \<noteq> snd ex_patch \<longrightarrow> staged' f = ([''main.nf'' \<mapsto> ''v2''] ++ [''main.nf'' \<mapsto> ''v2 edited'']) f"
       "get_patch_fn (mj w') ''fastqc'' (remote_url (modules_repo ex_world_patched)) ''nf-core'' = Some ex_patch"
       "mj_disk w' = mj w'"
       "round_trips ex_env_applies [''main.nf'' \<mapsto> ''v2'']
            ([''main.nf'' \<mapsto> ''v2''] ++ [''main.nf'' \<mapsto> ''v2 edited''])
          \<and> snd ex_patch \<notin> dom ([''main.nf'' \<mapsto> ''v2''] ++ [''main.nf'' \<mapsto> ''v2 edited''])
        \<longrightarrow> (\<exists>nf. differ_apply ex_env_applies (the (staged' (snd ex_patch))) [''main.nf'' \<mapsto> ''v2''] = Some nf
                        \<and> [''main.nf'' \<mapsto> ''v2''] ++ nf = staged'(snd ex_patch := None))"
    apply (elim exE conjE)
    apply (rule that)
         apply assumption+
    done
  have rt: "round_trips ex_env_applies [''main.nf'' \<mapsto> ''v2'']
              ([''main.nf'' \<mapsto> ''v2''] ++ [''main.nf'' \<mapsto> ''v2 edited''])"
    by (simp add: round_trips_def ex_env_applies_def)
  have fresh: "snd ex_patch \<notin> dom ([''main.nf'' \<mapsto> ''v2''] ++ [''main.nf'' \<mapsto> ''v2 edited''])"
    by (simp add: ex_patched_fields)
  have main: "staged' ''main.nf'' = Some ''v2 edited''"
    using r(3) by (simp add: ex_patched_fields)
  from r(6) rt fresh
  have "\<exists>nf. differ_apply ex_env_applies (the (staged' (snd ex_patch))) [''main.nf'' \<mapsto> ''v2''] = Some nf
            \<and> [''main.nf'' \<mapsto> ''v2''] ++ nf = staged'(snd ex_patch := None)"
    by blast
  then have again: "\<exists>nf. differ_apply ex_env_applies (the (staged' ''fastqc.diff'')) [''main.nf'' \<mapsto> ''v2''] = Some nf
            \<and> [''main.nf'' \<mapsto> ''v2''] ++ nf = staged'(''fastqc.diff'' := None)"
    by (simp only: ex_patched_fields(14))
  have regen: "staged' ''fastqc.diff'' = Some ''diff''"
    using r(2) by (simp add: ex_patched_fields(14) ex_env_applies_def ex_env_fields)
  have entry: "get_patch_fn (mj w') ''fastqc'' ''nfcore.git'' ''nf-core'' = Some ex_patch"
    using r(4) by (simp add: ex_patched_fields ex_repo_fields)
  from r(1) regen main entry r(5) again show ?thesis
    by blast
qed

lemma ex_patched_version:
  "get_component_version ex_json_patched ''modules'' ''fastqc'' ''nfcore.git'' ''nf-core'' = Some ''old111''"
  by (simp add: get_component_version_def mj_lookup_def ex_json_patched_def)

lemma ex_patched_installed:
  "installed ex_world_patched = [[''modules'', ''nf-core'', ''fastqc'']
                       \<mapsto> [''main.nf'' \<mapsto> ''v1 edited'', ''fastqc.diff'' \<mapsto> ''edit'']]"
  by (simp add: ex_world_patched_def)

lemma ex_patched_run_fields:
  "update_all ex_world_patched = False" "repo_type ex_world_patched = ''pipeline''"
  "valid_directory ex_world_patched = True" "update_config ex_world_patched = CDict []"
  "files ex_world_patched = Map.empty" "component ex_world_patched = None"
  by (simp_all add: ex_world_patched_def ex_fields)

lemma ex_patched_components:
  "get_all_components ex_json_patched ''modules'' = [(''nfcore.git'', [(''nf-core'', ''fastqc'')])]"
  by (simp add: get_all_components_def ex_json_patched_def)

lemma ex_patched_branch:
  "get_component_branch ex_json_patched ''modules'' ''fastqc'' ''nfcore.git'' ''nf-core'' = Inr ''master''"
  by (simp add: get_component_branch_def mj_lookup_def ex_json_patched_def)

lemma ex_patched_patch_fn:
  "get_patch_fn ex_json_patched ''fastqc'' ''nfcore.git'' ''nf-core'' = Some ex_patch"
  by (simp add: get_patch_fn_def ex_json_patched_def)

lemma ex_patched_plan:
  assumes "mj w = ex_json_patched" and "component_type w = ''modules''" and "modules_repo w = ex_repo"
      and "update_config w = CDict []"
  shows "get_single_component_info ex_env (Some ''fastqc'') w
           = Some (Inr (ex_repo, ''fastqc'', sha w, Some ex_patch), w)"
  by (subst get_single_passes_checks [where comps = "[(''nf-core'', ''fastqc'')]" and rest = "[]" and dir = "''nf-core''"])
     (simp_all add: assms ex_patched_components ex_repo_fields install_dirs_of_def
        component_choices_def ex_env_fields single_config_sha_def bnd_def lift_def ret_def
        check_update_branch_def ex_patched_branch ex_patched_patch_fn)



section \<open>Cascade\<close>

lemma nested_updates_props:
  assumes "nested_updates upd T xs w = Some (r, w')"
  shows "(\<forall>calls. r = Inr calls \<longrightarrow>
            calls = map (\<lambda>s. (T, s)) xs \<and> component_type w' = component_type w)
       \<and> (\<forall>e. r = Inl e \<longrightarrow>
            (\<exists>s w1. s \<in> set xs \<and> component_type w1 = T \<and> upd s w1 = Some (Inl e, w')))"
  using assms
proof (induction xs arbitrary: w r w')
  case Nil
  then show ?case by (auto simp: ret_def)
next
  case (Cons s rest)
  let ?w1 = "w \<lparr> component_type := T \<rparr>"
  from Cons.prems have run:
    "bnd (\<lambda>w1. bnd (upd s) (\<lambda>_. ret (component_type w1, s)) w1) (\<lambda>call.
     bnd (reset_component_type (component_type w)) (\<lambda>_.
     bnd (nested_updates upd T rest) (\<lambda>calls.
     ret (call # calls)))) ?w1 = Some (r, w')"
    by (simp add: bnd_def change_component_type_def)
  show ?case
  proof (cases "upd s ?w1")
    case None
    with run show ?thesis by (simp add: bnd_def)
  next
    case (Some res)
    obtain r1 w2 where res: "res = (r1, w2)" by (cases res)
    show ?thesis
    proof (cases r1)
      case (Inl e)
      with run Some res have "r = Inl e" "w' = w2" by (simp_all add: bnd_def)
      with Some res Inl have "r = Inl e" "upd s ?w1 = Some (Inl e, w')" "component_type ?w1 = T"
        by simp_all
      then show ?thesis by (metis list.set_intros(1) sum.distinct(1) sum.inject(1))
    next
      case (Inr b)
      let ?w3 = "w2 \<lparr> component_type := component_type w \<rparr>"
      from run Some res Inr have rec:
        "bnd (nested_updates upd T rest) (\<lambda>calls. ret ((T, s) # calls)) ?w3 = Some (r, w')"
        by (simp add: bnd_def ret_def reset_component_type_def)
      then obtain r2 where rest: "nested_updates upd T rest ?w3 = Some (r2, w')"
        and r: "r = (case r2 of Inl e \<Rightarrow> Inl e | Inr calls \<Rightarrow> Inr ((T, s) # calls))"
        by (auto simp: bnd_def ret_def split: option.splits sum.splits prod.splits)
      from Cons.IH [OF rest] r show ?thesis
        by (cases r2) auto
    qed
  qed
qed

text \<open>
  C4, as amended. After the update of a module whose record lists \<open>ib\<close> as its
  installed-by set, \<open>update_linked_components\<close> makes one nested update per name of
  \<open>ib\<close> other than the marker \<open>modules\<close>, in order, each with \<open>subworkflows\<close> as the
  active type, and when all of them return the active type is \<open>modules\<close> again. When
  a nested update raises, the exception leaves \<open>update_linked_components\<close> with the
  state as that nested update left it: nothing restores the type.
\<close>

theorem cascade_after_module_update:
  assumes "component_type w = ''modules''"
      and "installed_by_of (mj w) (remote_url (modules_repo w)) ''modules'' install_dir cname = Inr ib"
      and "update_linked_components upd cname install_dir w = Some (r, w')"
  shows "(\<forall>calls. r = Inr calls \<longrightarrow>
            calls = map (\<lambda>s. (''subworkflows'', s)) (filter (\<lambda>s. s \<noteq> ''modules'') ib)
            \<and> component_type w' = ''modules'')
       \<and> (\<forall>e. r = Inl e \<longrightarrow>
            (\<exists>s w1. s \<in> set (filter (\<lambda>s. s \<noteq> ''modules'') ib)
                 \<and> component_type w1 = ''subworkflows'' \<and> upd s w1 = Some (Inl e, w')))"
proof -
  let ?subs = "filter (\<lambda>s. s \<noteq> ''modules'') ib"
  from assms have run:
    "bnd (nested_updates upd ''subworkflows'' ?subs) (\<lambda>calls1.
     bnd (nested_updates upd ''modules'' []) (\<lambda>calls2. ret (calls1 @ calls2))) w = Some (r, w')"
    by (simp add: update_linked_components_def get_modules_subworkflows_to_update_def bnd_def
          lift_def ret_def)
  then obtain r1 where n: "nested_updates upd ''subworkflows'' ?subs w = Some (r1, w')"
    and r: "r = (case r1 of Inl e \<Rightarrow> Inl e | Inr calls \<Rightarrow> Inr calls)"
    by (auto simp: bnd_def ret_def split: option.splits sum.splits prod.splits)
  from nested_updates_props [OF n] r assms(1) show ?thesis
    by (cases r1) auto
qed

lemma ex_installed_by:
  "installed_by_of ex_json ''nfcore.git'' ''modules'' ''nf-core'' ''fastqc'' = Inr [''modules'', ''bam_sort'']"
  by (simp add: installed_by_of_def mj_lookup_def ex_json_def)

lemma ex_nested_bulk_raises:
  assumes "update_all w" and "repo_type w = ''pipeline''"
      and "\<not> (truthy_save_diff (save_diff_fn w) \<and> show_diff w = Some True)"
  shows "update (Suc n) ex_env (Some ''bam_sort'') w =
           Some (Inl (UserWarning ''either a component or the all flag, not both''),
                 w \<lparr> component := Some ''bam_sort'' \<rparr>)"
proof -
  have "parameter_checks (w \<lparr> component := Some ''bam_sort'' \<rparr>) =
          Some (Inl (UserWarning ''either a component or the all flag, not both''),
                w \<lparr> component := Some ''bam_sort'' \<rparr>)"
    using assms by (auto simp: parameter_checks_def raise_def)
  then show ?thesis
    by (simp add: update_body_def bnd_def modify_def)
qed

lemma ex_cascade_raises:
  "update_linked_components (\<lambda>s. update 1 ex_env (Some s)) ''fastqc'' ''nf-core''
       (ex_world \<lparr> update_all := True \<rparr>)
     = Some (Inl (UserWarning ''either a component or the all flag, not both''),
             ex_world \<lparr> update_all := True, component_type := ''subworkflows'',
                        component := Some ''bam_sort'' \<rparr>)"
proof -
  have nested: "update (Suc 0) ex_env (Some ''bam_sort'')
       (ex_world \<lparr> update_all := True, component_type := ''subworkflows'' \<rparr>)
     = Some (Inl (UserWarning ''either a component or the all flag, not both''),
             ex_world \<lparr> update_all := True, component_type := ''subworkflows'',
                        component := Some ''bam_sort'' \<rparr>)"
    by (subst ex_nested_bulk_raises) (simp_all add: ex_fields)
  show ?thesis
    by (simp add: update_linked_components_def get_modules_subworkflows_to_update_def ex_fields
        ex_repo_fields ex_installed_by bnd_def lift_def ret_def change_component_type_def
        nested del: update.simps)
qed

lemma ex_cascade_returns:
  "update_linked_components (\<lambda>s. ret True) ''fastqc'' ''nf-core'' ex_world
     = Some (Inr [(''subworkflows'', ''bam_sort'')], ex_world)"
  by (simp add: update_linked_components_def get_modules_subworkflows_to_update_def ex_fields
        ex_repo_fields ex_installed_by bnd_def lift_def ret_def change_component_type_def
        reset_component_type_def ex_world_def)

theorem cascade_type_not_restored_counterexample:
  "update_linked_components (\<lambda>s. update 1 ex_env (Some s)) ''fastqc'' ''nf-core''
       (ex_world \<lparr> update_all := True \<rparr>)
     = Some (Inl (UserWarning ''either a component or the all flag, not both''),
             ex_world \<lparr> update_all := True, component_type := ''subworkflows'',
                        component := Some ''bam_sort'' \<rparr>)
   \<and> component_type (ex_world \<lparr> update_all := True \<rparr>) = ''modules''
   \<and> component_type (ex_world \<lparr> update_all := True, component_type := ''subworkflows'',
                                 component := Some ''bam_sort'' \<rparr>) = ''subworkflows''"
  using ex_cascade_raises by (simp add: ex_fields)

theorem cascade_after_module_update_witness:
  "update_linked_components (\<lambda>s. ret True) ''fastqc'' ''nf-core'' ex_world
     = Some (Inr [(''subworkflows'', ''bam_sort'')], ex_world)
   \<and> [(''subworkflows'', ''bam_sort'')]
       = map (\<lambda>s. (''subworkflows'', s)) (filter (\<lambda>s. s \<noteq> ''modules'') [''modules'', ''bam_sort''])
   \<and> component_type ex_world = ''modules''
   \<and> (\<exists>s w1. s \<in> set (filter (\<lambda>s. s \<noteq> ''modules'') [''modules'', ''bam_sort''])
         \<and> component_type w1 = ''subworkflows''
         \<and> update 1 ex_env (Some s) w1 =
             Some (Inl (UserWarning ''either a component or the all flag, not both''),
                   ex_world \<lparr> update_all := True, component_type := ''subworkflows'',
                              component := Some ''bam_sort'' \<rparr>))"
proof -
  have t: "component_type (ex_world \<lparr> update_all := True \<rparr>) = ''modules''"
    by (simp add: ex_fields)
  have ib: "installed_by_of (mj (ex_world \<lparr> update_all := True \<rparr>))
              (remote_url (modules_repo (ex_world \<lparr> update_all := True \<rparr>))) ''modules'' ''nf-core'' ''fastqc''
            = Inr [''modules'', ''bam_sort'']"
    by (simp add: ex_fields ex_repo_fields ex_installed_by)
  have ib0: "installed_by_of (mj ex_world) (remote_url (modules_repo ex_world)) ''modules'' ''nf-core'' ''fastqc''
            = Inr [''modules'', ''bam_sort'']"
    by (simp add: ex_fields ex_repo_fields ex_installed_by)
  from cascade_after_module_update [OF t ib ex_cascade_raises]
  have raised: "\<exists>s w1. s \<in> set (filter (\<lambda>s. s \<noteq> ''modules'') [''modules'', ''bam_sort''])
         \<and> component_type w1 = ''subworkflows''
         \<and> update 1 ex_env (Some s) w1 =
             Some (Inl (UserWarning ''either a component or the all flag, not both''),
                   ex_world \<lparr> update_all := True, component_type := ''subworkflows'',
                              component := Some ''bam_sort'' \<rparr>)"
    by blast
  from cascade_after_module_update [OF ex_fields(1) ib0 ex_cascade_returns]
  have returned: "[(''subworkflows'', ''bam_sort'')]
       = map (\<lambda>s. (''subworkflows'', s)) (filter (\<lambda>s. s \<noteq> ''modules'') [''modules'', ''bam_sort''])
     \<and> component_type ex_world = ''modules''"
    by blast
  from ex_cascade_returns raised returned show ?thesis by blast
qed

section \<open>Dry runs\<close>

lemma bnd_Some_E:
  assumes "bnd m f w = Some (r, w'')"
  obtains (raised) e where "m w = Some (Inl e, w'')" and "r = Inl e"
        | (returned) x w' where "m w = Some (Inr x, w')" and "f x w' = Some (r, w'')"
  using assms by (auto simp: bnd_def split: option.splits sum.splits prod.splits)

lemma dry_frame_refl [simp]: "dry_frame w w"
  by (simp add: dry_frame_def)

lemma dry_frame_trans: "dry_frame a b \<Longrightarrow> dry_frame b c \<Longrightarrow> dry_frame a c"
  by (auto simp: dry_frame_def)

lemma dry_frame_mode: "dry_frame w w' \<Longrightarrow> dry_mode w \<Longrightarrow> dry_mode w'"
  by (auto simp: dry_frame_def dry_mode_def)

lemma dry_frame_logs [simp]: "dry_frame w (w \<lparr> logs := l \<rparr>)"
  by (simp add: dry_frame_def)

lemma log_msg_dry:
  "log_msg l m w = Some (r, w') \<Longrightarrow> dry_frame w w' \<and> mj w' = mj w \<and> r = Inr ()"
  by (auto simp: log_msg_def dry_frame_def)

lemma ask_text_dry:
  "ask_text w = Some (r, w') \<Longrightarrow> dry_frame w w' \<and> mj w' = mj w"
  by (auto simp: ask_text_def dry_frame_def split: list.splits answer.splits)

lemma resolve_version_dry:
  "resolve_version E repo c s w = Some (r, w') \<Longrightarrow> dry_frame w w' \<and> mj w' = mj w"
  by (auto simp: resolve_version_def ret_def split: option.splits if_splits dest: ask_text_dry)

lemma append_chunk_dry:
  "append_chunk p c w = Some (r, w') \<Longrightarrow> dry_frame w w' \<and> mj w' = mj w"
  by (auto simp: append_chunk_def dry_frame_def raise_def split: option.splits fnode.splits)

lemma ask_confirm_dry:
  "ask_confirm w = Some (r, w') \<Longrightarrow>
     dry_frame w w' \<and> mj w' = mj w \<and> (\<exists>b rest. r = Inr b \<and> answers w = AConfirm b # rest)"
  by (auto simp: ask_confirm_def dry_frame_def split: list.splits answer.splits)

lemma resolve_version_answers:
  assumes "resolve_version E repo c s w = Some (Inr v, w1)"
  shows "answers w1 = (if s = None \<and> prompt w then tl (answers w) else answers w)"
  using assms
  by (auto simp: resolve_version_def ret_def ask_text_def split: option.splits if_splits list.splits answer.splits)

lemma dry_mode_entry: "dry_mode w \<Longrightarrow> entry_dry s w"
  by (auto simp: dry_mode_def entry_dry_def split: list.splits answer.splits bool.splits
      dest: list.set_sel(2))

lemma present_diff_dry:
  assumes "truthy_save_diff (save_diff_fn w)
           \<or> (show_diff w = Some True \<and> (\<forall>rest. answers w \<noteq> AConfirm True # rest))"
      and "present_diff E repo c dir staged None True w = Some (r, w')"
  shows "dry_frame w w' \<and> mj w' = mj w \<and> (\<forall>d. r = Inr d \<longrightarrow> d)"
proof (cases "truthy_save_diff (save_diff_fn w)")
  case True
  show ?thesis
  proof (cases "save_diff_fn w")
    case SNone
    with True show ?thesis by simp
  next
    case (SBool b)
    with True assms(2) have "r = Inl TypeError" "w' = w"
      by (auto simp: present_diff_def raise_def)
    then show ?thesis by simp
  next
    case (SPath p)
    let ?w1 = "w \<lparr> logs := logs w @ [(Info, WritingDiffFile dir p)] \<rparr>"
    from SPath True assms(2) have
      b: "bnd (\<lambda>w1. append_chunk p (differ_diff E (dir_of w1 dir) staged) w1) (\<lambda>_. ret True) ?w1 = Some (r, w')"
      by (simp add: present_diff_def)
    then obtain r1 where a: "append_chunk p (differ_diff E (dir_of ?w1 dir) staged) ?w1 = Some (r1, w')"
      and r: "r = (case r1 of Inl e \<Rightarrow> Inl e | Inr u \<Rightarrow> Inr True)"
      by (auto simp: bnd_def ret_def split: option.splits sum.splits prod.splits)
    from append_chunk_dry [OF a] have "dry_frame ?w1 w'" "mj w' = mj w" by simp_all
    moreover have "dry_frame w ?w1" by simp
    ultimately have "dry_frame w w'" "mj w' = mj w"
      using dry_frame_trans by blast+
    with r show ?thesis by (cases r1) auto
  qed
next
  case False
  with assms(1) have sd: "show_diff w = Some True" and nc: "\<forall>rest. answers w \<noteq> AConfirm True # rest"
    by auto
  with False assms(2) have "bnd ask_confirm (\<lambda>answer. ret (\<not> answer)) w = Some (r, w')"
    by (simp add: present_diff_def)
  then obtain r1 where a: "ask_confirm w = Some (r1, w')"
    and r: "r = (case r1 of Inl e \<Rightarrow> Inl e | Inr b \<Rightarrow> Inr (\<not> b))"
    by (auto simp: bnd_def ret_def split: option.splits sum.splits prod.splits)
  from ask_confirm_dry [OF a] nc r show ?thesis
    by (cases r1) auto
qed

lemma install_or_record_dry:
  assumes "install_or_record upd repo c v staged True w = Some (r, w')"
  shows "r = Inr () \<and> w' = w \<lparr> mj := mj_update_mem (mj w) (component_type w) repo c v (component_type w) \<rparr>"
  using assms by (auto simp: install_or_record_def modules_json_update_def Let_def)

lemma process_entry_dry:
  assumes "entry_dry sha1 w"
      and "process_entry upd E (repo, cname, sha1, None) acc w = Some (r, w')"
  shows "dry_frame w w'
       \<and> (mj w' = mj w
            \<or> (\<exists>version. mj w' = mj_update_mem (mj w) (component_type w) repo cname version (component_type w)))"
proof -
  obtain ev aps where acc: "acc = (ev, aps)" by (cases acc)
  from assms(1) have dry: "show_diff w = Some True \<or> truthy_save_diff (save_diff_fn w)"
    by (auto simp: entry_dry_def)
  let ?dir = "[component_type w, repo_path repo, cname]"
  let ?cur = "get_component_version (mj w) (component_type w) cname (remote_url repo) (repo_path repo)"
  let ?F = "\<lambda>version.
             if ?cur \<noteq> None \<and> \<not> force w \<and> ?cur = Some version then
               bnd (if (sha w \<noteq> None \<and> sha w \<noteq> Some []) \<or> prompt w
                    then log_msg Info (AlreadyInstalledAt ?dir version)
                    else log_msg Info (AlreadyUpToDate ?dir)) (\<lambda>_.
               ret (ev, aps))
             else
               (\<lambda>w1. case install_component_files E (component_type w1) cname version repo of
                  None \<Rightarrow> ret (False, aps) w1
                | Some staged \<Rightarrow>
                    bnd (present_diff E repo cname ?dir staged None True)
                      (\<lambda>dry_run1.
                    bnd (install_or_record upd repo cname version staged dry_run1) (\<lambda>_.
                    ret (ev, aps))) w1)"
  from assms(2) have run: "bnd (resolve_version E repo cname sha1) ?F w = Some (r, w')"
    unfolding process_entry_def acc Let_def
    by (simp add: dry cong: option.case_cong if_cong)
  then show ?thesis
  proof (cases rule: bnd_Some_E)
    case (raised e)
    with resolve_version_dry show ?thesis by blast
  next
    case (returned version w1)
    from resolve_version_dry [OF returned(1)] have f1: "dry_frame w w1" and m1: "mj w1 = mj w"
      by simp_all
    from assms(1) resolve_version_answers [OF returned(1)] f1
    have still: "truthy_save_diff (save_diff_fn w1)
           \<or> (show_diff w1 = Some True \<and> (\<forall>rest. answers w1 \<noteq> AConfirm True # rest))"
      by (auto simp: entry_dry_def dry_frame_def split: list.splits answer.splits bool.splits)
    show ?thesis
    proof (cases "?cur \<noteq> None \<and> \<not> force w \<and> ?cur = Some version")
      case True
      with returned(2) obtain l m where "bnd (log_msg l m) (\<lambda>_. ret (ev, aps)) w1 = Some (r, w')"
        by (auto split: if_splits)
      then have "w' = w1 \<lparr> logs := logs w1 @ [(l, m)] \<rparr>"
        by (simp add: ret_def)
      with f1 m1 show ?thesis
        using dry_frame_trans [OF f1 dry_frame_logs] by simp
    next
      case False
      show ?thesis
      proof (cases "install_component_files E (component_type w1) cname version repo")
        case None
        with False returned(2) have "w' = w1" by (auto simp: ret_def)
        with f1 m1 show ?thesis by simp
      next
        case (Some staged)
        with False returned(2) have
          inner: "bnd (present_diff E repo cname ?dir staged None True)
                      (\<lambda>dry_run1.
                    bnd (install_or_record upd repo cname version staged dry_run1) (\<lambda>_.
                    ret (ev, aps))) w1 = Some (r, w')"
          by auto
        from inner show ?thesis
        proof (cases rule: bnd_Some_E)
          case (raised e)
          from present_diff_dry [OF still raised(1)] f1 m1
          show ?thesis using dry_frame_trans by auto
        next
          case (returned d w2)
          from present_diff_dry [OF still returned(1)]
          have f2: "dry_frame w1 w2" and m2: "mj w2 = mj w1" and d: "d" by simp_all
          from returned(2) d obtain r3 where
            io: "install_or_record upd repo cname version staged True w2 = Some (r3, w')"
            by (auto simp: bnd_def ret_def split: option.splits sum.splits prod.splits)
          from install_or_record_dry [OF io]
          have w': "w' = w2 \<lparr> mj := mj_update_mem (mj w2) (component_type w2) repo cname version (component_type w2) \<rparr>"
            by simp
          have f: "dry_frame w w2" using f1 f2 by (rule dry_frame_trans)
          then have t: "component_type w2 = component_type w" by (simp add: dry_frame_def)
          have "dry_frame w w'" using f unfolding w' by (simp add: dry_frame_def)
          moreover have "mj w' = mj_update_mem (mj w) (component_type w) repo cname version (component_type w)"
            unfolding w' by (simp add: m1 m2 t)
          ultimately show ?thesis by blast
        qed
      qed
    qed
  qed
qed

lemma update_entries_dry:
  assumes "update_entries upd E plan acc w = Some (r, w')"
      and "dry_mode w"
      and "\<forall>e\<in>set plan. snd (snd (snd e)) = None"
  shows "dry_frame w w'"
  using assms
proof (induction plan arbitrary: acc w)
  case Nil
  then show ?case by (simp add: ret_def)
next
  case (Cons e es)
  obtain repo cname sha1 where e: "e = (repo, cname, sha1, None)"
    using Cons.prems(3) by (cases e) auto
  from Cons.prems(1) have "bnd (process_entry upd E e acc) (\<lambda>acc1. update_entries upd E es acc1) w = Some (r, w')"
    by simp
  then show ?case
  proof (cases rule: bnd_Some_E)
    case (raised x)
    with process_entry_dry [OF dry_mode_entry [OF Cons.prems(2)]] e show ?thesis by blast
  next
    case (returned acc1 w1)
    from process_entry_dry [OF dry_mode_entry [OF Cons.prems(2)]] returned(1) e have f: "dry_frame w w1" by blast
    from Cons.IH [OF returned(2) dry_frame_mode [OF f Cons.prems(2)]] Cons.prems(3)
    have "dry_frame w1 w'" by simp
    with f show ?thesis by (rule dry_frame_trans)
  qed
qed

text \<open>
  An entry without a recorded patch that is processed in diff-to-file mode, or in
  preview mode and not confirmed by the user, leaves every installed component
  directory and the \<open>modules.json\<close> on disk as they were, and either leaves the
  in-memory state as it is (already up to date, staging failed, or an exception) or
  records its new version in memory only, where the entries after it read it. So does
  the whole loop over a plan of such entries, in diff-to-file mode or in preview mode
  with a user who confirms no update.
\<close>

lemma dry_run_unpatched_entries:
  assumes "update_entries upd E plan acc w = Some (r, w')"
      and "dry_mode w"
      and "\<forall>e\<in>set plan. snd (snd (snd e)) = None"
  shows "installed w' = installed w \<and> mj_disk w' = mj_disk w
       \<and> (\<forall>repo cname sha1 acc0 w0 r1 w1.
             entry_dry sha1 w0 \<and> process_entry upd E (repo, cname, sha1, None) acc0 w0 = Some (r1, w1) \<longrightarrow>
               installed w1 = installed w0 \<and> mj_disk w1 = mj_disk w0
               \<and> (mj w1 = mj w0
                    \<or> (\<exists>version.
                          mj w1 = mj_update_mem (mj w0) (component_type w0) repo cname version (component_type w0)
                        \<and> get_component_version (mj w1) (component_type w0) cname
                              (remote_url repo) (repo_path repo) = Some version)))"
proof -
  from update_entries_dry [OF assms] have "installed w' = installed w \<and> mj_disk w' = mj_disk w"
    by (simp add: dry_frame_def)
  moreover have "installed w1 = installed w0 \<and> mj_disk w1 = mj_disk w0
               \<and> (mj w1 = mj w0
                    \<or> (\<exists>version.
                          mj w1 = mj_update_mem (mj w0) (component_type w0) repo cname version (component_type w0)
                        \<and> get_component_version (mj w1) (component_type w0) cname
                              (remote_url repo) (repo_path repo) = Some version))"
    if "entry_dry sha1 w0" and "process_entry upd E (repo, cname, sha1, None) acc0 w0 = Some (r1, w1)"
    for repo cname sha1 acc0 w0 r1 w1
    using process_entry_dry [OF that] version_after_update
    by (auto simp: dry_frame_def)
  ultimately show ?thesis by blast
qed

lemma ex_solo_version:
  "get_component_version ex_json ''modules'' ''fastqc'' ''nfcore.git'' ''nf-core'' = Some ''old111''"
  "get_component_version ex_json_solo ''modules'' ''fastqc'' ''nfcore.git'' ''nf-core'' = Some ''old111''"
  by (simp_all add: get_component_version_def mj_lookup_def ex_json_def ex_json_solo_def)

lemma ex_solo_components:
  "get_all_components ex_json_solo ''modules'' = [(''nfcore.git'', [(''nf-core'', ''fastqc'')])]"
  by (simp add: get_all_components_def ex_json_solo_def)

lemma ex_solo_branch:
  "get_component_branch ex_json_solo ''modules'' ''fastqc'' ''nfcore.git'' ''nf-core'' = Inr ''master''"
  by (simp add: get_component_branch_def mj_lookup_def ex_json_solo_def)

lemma ex_solo_installed_by:
  "installed_by_of (mj_update_mem ex_json_solo ''modules'' ex_repo ''fastqc'' ''new999'' ''modules'')
      ''nfcore.git'' ''modules'' ''nf-core'' ''fastqc'' = Inr [''modules'']"
  by (simp add: installed_by_of_def mj_lookup_def mj_update_mem_def map_of_al_modify ex_repo_fields
        new_record_def ex_json_solo_def)

lemma ex_solo_patch_fn: "get_patch_fn ex_json_solo c u d = None"
  by (simp add: get_patch_fn_def ex_json_solo_def)

lemma ex_dry_patched_entry:
  "process_entry upd ex_env (ex_repo, ''fastqc'', None, Some ex_patch) (True, True)
       (ex_world_patched \<lparr> component := Some ''fastqc'', save_diff_fn := SPath ''out.diff'',
           files := [''out.diff'' \<mapsto> RegularFile []] \<rparr>)
     = Some (Inr (True, False),
         ex_world_patched \<lparr> component := Some ''fastqc'', save_diff_fn := SPath ''out.diff'',
            files := [''out.diff'' \<mapsto> RegularFile [''diff'']],
            logs := [(Info, FoundPatch ''nf-core'' ''fastqc''),
                     (Warning, FailedToApplyPatch ''nf-core'' ''fastqc''),
                     (Warning, FailedToPatch [''modules'', ''nf-core'', ''fastqc'']),
                     (Warning, ComparedUnpatched),
                     (Info, WritingDiffFile [''modules'', ''nf-core'', ''fastqc''] ''out.diff'')],
            installed := [[''modules'', ''nf-core'', ''fastqc''] \<mapsto> [''main.nf'' \<mapsto> ''v1 edited'']],
            mj := mj_update_mem ex_json_patched ''modules'' ex_repo ''fastqc'' ''new999'' ''modules'' \<rparr>)"
proof -
  let ?w = "ex_world_patched \<lparr> component := Some ''fastqc'', save_diff_fn := SPath ''out.diff'',
           files := [''out.diff'' \<mapsto> RegularFile []] \<rparr>"
  have inst: "installed ?w = [[''modules'', ''nf-core'', ''fastqc'']
                       \<mapsto> [''main.nf'' \<mapsto> ''v1 edited'', ''fastqc.diff'' \<mapsto> ''edit'']]"
    by (simp add: ex_patched_installed)
  have h1: "installed ?w (fst ex_patch) = Some [''main.nf'' \<mapsto> ''v1 edited'', ''fastqc.diff'' \<mapsto> ''edit'']"
    by (simp add: ex_patched_installed ex_patched_fields(13))
  have h2: "[''main.nf'' \<mapsto> ''v1 edited'', ''fastqc.diff'' \<mapsto> ''edit''] (snd ex_patch) = Some ''edit''"
    by (simp add: ex_patched_fields)
  have h3: "fst ex_patch = [component_type ?w, repo_path ex_repo, ''fastqc'']"
    by (simp add: ex_patched_fields ex_repo_fields)
  have h4: "(None :: string option) \<noteq> None \<or> \<not> prompt ?w"
    by (simp add: ex_patched_fields)
  have h5: "''new999'' = (case (None :: string option) of Some s \<Rightarrow> s
                | None \<Rightarrow> get_latest_component_version ex_env ex_repo ''fastqc'' (component_type ?w))"
    by (simp add: ex_env_fields)
  have h6: "force ?w \<or> get_component_version (mj ?w) (component_type ?w) ''fastqc''
                      (remote_url ex_repo) (repo_path ex_repo) \<noteq> Some ''new999''"
    by (simp add: ex_patched_fields ex_repo_fields ex_patched_version)
  have h7: "install_component_files ex_env (component_type ?w) ''fastqc'' ''new999'' ex_repo
              = Some [''main.nf'' \<mapsto> ''v2'']"
    by (simp add: ex_env_fields)
  have h8: "differ_apply ex_env ''edit'' [''main.nf'' \<mapsto> ''v2''] = None"
    by (simp add: ex_env_fields)
  have moved: "[[''modules'', ''nf-core'', ''fastqc'']
                       \<mapsto> [''main.nf'' \<mapsto> ''v1 edited'', ''fastqc.diff'' \<mapsto> ''edit'']]
                 ([''modules'', ''nf-core'', ''fastqc''] \<mapsto>
                    [''main.nf'' \<mapsto> ''v1 edited'', ''fastqc.diff'' \<mapsto> ''edit''](''fastqc.diff'' := None))
               = [[''modules'', ''nf-core'', ''fastqc''] \<mapsto> [''main.nf'' \<mapsto> ''v1 edited'']]"
    by (simp add: fun_upd_twist)
  show ?thesis
    apply (subst process_entry_patch_failure [OF h1 h2 h3 h4 h5 h6 h7 h8])
    apply (simp only: inst ex_patched_fields(13,14) moved)
    apply (simp add: ex_patched_fields(2-) ex_repo_fields present_diff_def install_or_record_def
          modules_json_update_def append_chunk_def bnd_def ret_def lift_def ex_env_fields
          log_msg_def modify_def Let_def)
    done
qed

lemma ex_dry_patched_run:
  "update (Suc 0) ex_env (Some ''fastqc'') (ex_world_patched \<lparr> save_diff_fn := SPath ''out.diff'' \<rparr>)
     = Some (Inr True,
         ex_world_patched \<lparr> component := Some ''fastqc'', save_diff_fn := SPath ''out.diff'',
            files := [''out.diff'' \<mapsto> RegularFile [''diff'', ''jsondiff'']],
            logs := [(Info, FoundPatch ''nf-core'' ''fastqc''),
                     (Warning, FailedToApplyPatch ''nf-core'' ''fastqc''),
                     (Warning, FailedToPatch [''modules'', ''nf-core'', ''fastqc'']),
                     (Warning, ComparedUnpatched),
                     (Info, WritingDiffFile [''modules'', ''nf-core'', ''fastqc''] ''out.diff''),
                     (Info, Tip ''out.diff'')],
            installed := [[''modules'', ''nf-core'', ''fastqc''] \<mapsto> [''main.nf'' \<mapsto> ''v1 edited'']],
            mj := mj_update_mem ex_json_patched ''modules'' ex_repo ''fastqc'' ''new999'' ''modules'' \<rparr>)"
proof -
  let ?w0 = "ex_world_patched \<lparr> save_diff_fn := SPath ''out.diff'', component := Some ''fastqc'' \<rparr>"
  have plan: "get_single_component_info ex_env (Some ''fastqc'') ?w0
           = Some (Inr (ex_repo, ''fastqc'', None, Some ex_patch), ?w0)"
    using ex_patched_plan [of ?w0]
    by (simp add: ex_patched_fields ex_patched_run_fields)
  have sdf: "setup_diff_file ?w0
           = Some (Inr (), ex_world_patched \<lparr> component := Some ''fastqc'', save_diff_fn := SPath ''out.diff'',
                     files := [''out.diff'' \<mapsto> RegularFile []] \<rparr>)"
    by (simp add: setup_diff_file_def bnd_def ret_def diff_file_loop.simps Path_def modify_def touch_def
          ex_patched_run_fields)
  show ?thesis
    by (simp add: update_body_def bnd_def modify_def parameter_checks_def ex_patched_fields(2-)
          ex_patched_run_fields ret_def ex_env_fields plan sdf ex_dry_patched_entry log_msg_def
          append_chunk_def)
qed

lemma ex_two_fields:
  "component_type ex_world_two = ''modules''" "component ex_world_two = None" "force ex_world_two = False"
  "prompt ex_world_two = False" "sha ex_world_two = None" "update_all ex_world_two = True"
  "show_diff ex_world_two = Some False" "save_diff_fn ex_world_two = SPath ''out.diff''"
  "update_config ex_world_two = CDict []" "modules_repo ex_world_two = ex_repo"
  "repo_type ex_world_two = ''pipeline''" "valid_directory ex_world_two = True"
  "mj ex_world_two = ex_json_two" "mj_disk ex_world_two = ex_json_two"
  "files ex_world_two = Map.empty" "logs ex_world_two = []" "answers ex_world_two = []"
  "installed ex_world_two =
     [[''modules'', ''nf-core'', ''multiqc''] \<mapsto> [''main.nf'' \<mapsto> ''v1''],
      [''modules'', ''nf-core'', ''fastqc'']
         \<mapsto> [''main.nf'' \<mapsto> ''v1 edited'', ''fastqc.diff'' \<mapsto> ''edit'']]"
  by (simp_all add: ex_world_two_def ex_fields)

lemma ex_applies_fields:
  "sha_exists_on_branch ex_env_applies = (\<lambda>r s. True)"
  "component_exists ex_env_applies = (\<lambda>r c t. True)"
  "get_latest_component_version ex_env_applies = (\<lambda>r c t. ''new999'')"
  "install_component_files ex_env_applies = (\<lambda>t c v r. Some [''main.nf'' \<mapsto> ''v2''])"
  "repo_reachable ex_env_applies = (\<lambda>u b. True)"
  "repo_path_of ex_env_applies = (\<lambda>u. ''nf-core'')"
  "differ_apply ex_env_applies = (\<lambda>p d. Some [''main.nf'' \<mapsto> ''v2 edited''])"
  "differ_diff ex_env_applies = (\<lambda>a b. ''diff'')"
  "json_diff ex_env_applies = (\<lambda>a b. ''jsondiff'')"
  by (simp_all add: ex_env_applies_def ex_env_fields)

lemma ex_two_components:
  "get_all_components ex_json_two ''modules''
     = [(''nfcore.git'', [(''nf-core'', ''multiqc''), (''nf-core'', ''fastqc'')])]"
  by (simp add: get_all_components_def ex_json_two_def)

lemma ex_two_branch:
  "get_component_branch ex_json_two ''modules'' ''multiqc'' ''nfcore.git'' ''nf-core'' = Inr ''master''"
  "get_component_branch ex_json_two ''modules'' ''fastqc'' ''nfcore.git'' ''nf-core'' = Inr ''master''"
  by (simp_all add: get_component_branch_def mj_lookup_def ex_json_two_def)

lemma ex_two_patch_fn:
  "get_patch_fn ex_json_two ''multiqc'' ''nfcore.git'' ''nf-core'' = None"
  "get_patch_fn ex_json_two ''fastqc'' ''nfcore.git'' ''nf-core'' = Some ex_patch"
  by (simp_all add: get_patch_fn_def ex_json_two_def)

lemma ex_two_plan:
  assumes "mj w = ex_json_two" and "component_type w = ''modules''" and "sha w = None"
      and "update_config w = CDict []"
  shows "get_all_components_info ex_env_applies None w
     = Some (Inr [(ex_repo, ''multiqc'', None, None), (ex_repo, ''fastqc'', None, Some ex_patch)], w)"
  by (simp add: get_all_components_info_def assms ex_two_components plan_repo_def plan_whole_repo_def
        add_component_def reset_repo_def ex_two_branch bindE_def empty_acc_def log_summaries_def
        bnd_def ret_def group_by_repo_branch_def group_target_def ModulesRepo_def ex_applies_fields
        ex_repo_def ex_two_patch_fn lift_def)

lemma ex_two_versions:
  "get_component_version ex_json_two ''modules'' ''multiqc'' ''nfcore.git'' ''nf-core'' = Some ''old000''"
  "get_component_version ex_json_two ''modules'' ''fastqc'' ''nfcore.git'' ''nf-core'' = Some ''old111''"
  "get_component_version (mj_update_mem ex_json_two ''modules'' ex_repo ''multiqc'' ''new999'' ''modules'')
       ''modules'' ''fastqc'' ''nfcore.git'' ''nf-core'' = Some ''old111''"
  by (simp_all add: get_component_version_def mj_lookup_def ex_json_two_def mj_update_mem_def
        al_modify_def new_record_def ex_repo_fields)

lemma ex_two_setup:
  "setup_diff_file ex_world_two
     = Some (Inr (), ex_world_two \<lparr> save_diff_fn := SPath ''out.diff'',
                       files := [''out.diff'' \<mapsto> RegularFile []] \<rparr>)"
  by (simp add: setup_diff_file_def bnd_def ret_def diff_file_loop.simps Path_def modify_def touch_def
        ex_two_fields)

lemma ex_two_first_entry:
  "process_entry upd ex_env_applies (ex_repo, ''multiqc'', None, None) (True, True)
       (ex_world_two \<lparr> save_diff_fn := SPath ''out.diff'',
                       files := [''out.diff'' \<mapsto> RegularFile []] \<rparr>)
     = Some (Inr (True, True),
         ex_world_two \<lparr> save_diff_fn := SPath ''out.diff'',
            logs := [(Info, WritingDiffFile [''modules'', ''nf-core'', ''multiqc''] ''out.diff'')],
            files := [''out.diff'' \<mapsto> RegularFile [''diff'']],
            mj := mj_update_mem ex_json_two ''modules'' ex_repo ''multiqc'' ''new999'' ''modules'' \<rparr>)"
  apply (simp add: process_entry_def Let_def resolve_version_def ex_two_fields ex_applies_fields
      ex_repo_fields ex_two_versions ret_def)
  apply (simp add: bnd_def ex_two_fields ex_applies_fields log_msg_def ret_def present_diff_def
      install_or_record_def modules_json_update_def append_chunk_def Let_def ex_repo_fields)
  done

lemma ex_two_second_entry:
  "process_entry upd ex_env_applies (ex_repo, ''fastqc'', None, Some ex_patch) (True, True)
       (ex_world_two \<lparr> save_diff_fn := SPath ''out.diff'',
            logs := [(Info, WritingDiffFile [''modules'', ''nf-core'', ''multiqc''] ''out.diff'')],
            files := [''out.diff'' \<mapsto> RegularFile [''diff'']],
            mj := mj_update_mem ex_json_two ''modules'' ex_repo ''multiqc'' ''new999'' ''modules'' \<rparr>)
     = Some (Inr (True, True),
         ex_world_two \<lparr> save_diff_fn := SPath ''out.diff'',
            logs := [(Info, WritingDiffFile [''modules'', ''nf-core'', ''multiqc''] ''out.diff''),
                     (Info, FoundPatch ''nf-core'' ''fastqc''), (Debug, WritingPatchedFiles),
                     (Debug, RegeneratingPatch), (Debug, OverwritingInstalled),
                     (Info, PatchedSuccessfully [''modules'', ''nf-core'', ''fastqc'']),
                     (Info, ComparedPatched),
                     (Info, WritingDiffFile [''modules'', ''nf-core'', ''fastqc''] ''out.diff'')],
            files := [''out.diff'' \<mapsto> RegularFile [''diff'', ''diff'']],
            mj := mj_update_mem
                    ((mj_update_mem ex_json_two ''modules'' ex_repo ''multiqc'' ''new999'' ''modules'')
                       \<lparr> patches := AList.update (''fastqc'', ''nfcore.git'', ''nf-core'') ex_patch
                            (patches (mj_update_mem ex_json_two ''modules'' ex_repo ''multiqc'' ''new999'' ''modules'')) \<rparr>)
                    ''modules'' ex_repo ''fastqc'' ''new999'' ''modules'',
            mj_disk := (mj_update_mem ex_json_two ''modules'' ex_repo ''multiqc'' ''new999'' ''modules'')
                       \<lparr> patches := AList.update (''fastqc'', ''nfcore.git'', ''nf-core'') ex_patch
                            (patches (mj_update_mem ex_json_two ''modules'' ex_repo ''multiqc'' ''new999'' ''modules'')) \<rparr> \<rparr>)"
  apply (simp add: process_entry_def Let_def resolve_version_def ex_two_fields ex_applies_fields
      ex_repo_fields ex_two_versions ret_def)
  apply (simp add: bnd_def ex_two_fields ex_applies_fields log_msg_def ret_def present_diff_def
      install_or_record_def modules_json_update_def append_chunk_def Let_def
      try_apply_patch_def read_patch_def relative_to_def add_patch_entry_def lift_def
      ex_patched_fields(13,14) dir_of_def ex_repo_fields)
  done

lemma ex_two_run:
  "update (Suc 0) ex_env_applies None ex_world_two
     = Some (Inr True,
         ex_world_two \<lparr> save_diff_fn := SPath ''out.diff'',
            logs := [(Info, WritingDiffFile [''modules'', ''nf-core'', ''multiqc''] ''out.diff''),
                     (Info, FoundPatch ''nf-core'' ''fastqc''), (Debug, WritingPatchedFiles),
                     (Debug, RegeneratingPatch), (Debug, OverwritingInstalled),
                     (Info, PatchedSuccessfully [''modules'', ''nf-core'', ''fastqc'']),
                     (Info, ComparedPatched),
                     (Info, WritingDiffFile [''modules'', ''nf-core'', ''fastqc''] ''out.diff''),
                     (Info, Tip ''out.diff'')],
            files := [''out.diff'' \<mapsto> RegularFile [''diff'', ''diff'', ''jsondiff'']],
            mj := mj_update_mem
                    ((mj_update_mem ex_json_two ''modules'' ex_repo ''multiqc'' ''new999'' ''modules'')
                       \<lparr> patches := AList.update (''fastqc'', ''nfcore.git'', ''nf-core'') ex_patch
                            (patches (mj_update_mem ex_json_two ''modules'' ex_repo ''multiqc'' ''new999'' ''modules'')) \<rparr>)
                    ''modules'' ex_repo ''fastqc'' ''new999'' ''modules'',
            mj_disk := (mj_update_mem ex_json_two ''modules'' ex_repo ''multiqc'' ''new999'' ''modules'')
                       \<lparr> patches := AList.update (''fastqc'', ''nfcore.git'', ''nf-core'') ex_patch
                            (patches (mj_update_mem ex_json_two ''modules'' ex_repo ''multiqc'' ''new999'' ''modules'')) \<rparr> \<rparr>)"
proof -
  have plan: "get_all_components_info ex_env_applies None (ex_world_two \<lparr> component := None \<rparr>)
     = Some (Inr [(ex_repo, ''multiqc'', None, None), (ex_repo, ''fastqc'', None, Some ex_patch)],
          ex_world_two \<lparr> component := None \<rparr>)"
    by (rule ex_two_plan) (simp_all add: ex_two_fields)
  have same: "ex_world_two \<lparr> component := None \<rparr> = ex_world_two"
    by (simp add: ex_world_two_def ex_world_def)
  show ?thesis
    by (simp add: update_body_def bnd_def modify_def parameter_checks_def ex_two_fields same
          ret_def ex_applies_fields plan [unfolded same] ex_two_setup ex_two_first_entry
          ex_two_second_entry log_msg_def append_chunk_def)
qed

lemma version_patches_update:
  "get_component_version (j \<lparr> patches := p \<rparr>) ctype cname url dir = get_component_version j ctype cname url dir"
  by (simp add: get_component_version_def mj_lookup_def)

text \<open>
  C1. In a dry-run mode no installed component directory and no \<open>modules.json\<close> on
  disk should change. \<open>update\<close> calls \<open>try_apply_patch\<close> for an entry with a recorded
  patch before it looks at the mode, and \<open>try_apply_patch\<close> writes to disk in every
  mode. In a single-component run whose diffs go to a file, on a module whose recorded
  patch no longer applies, the patch file leaves the installed directory of the module
  (it moves to the staging directory, which goes away with the entry). In a bulk run
  whose diffs go to a file, where the patch of the second module applies,
  \<open>modules.json\<close> is written to disk with the version that the first module was
  given in memory only, while no directory was installed.
\<close>

theorem dry_run_patch_reconciliation_writes_disk:
  "(\<exists>w'. update (Suc 0) ex_env (Some ''fastqc'') (ex_world_patched \<lparr> save_diff_fn := SPath ''out.diff'' \<rparr>)
            = Some (Inr True, w')
        \<and> truthy_save_diff (save_diff_fn (ex_world_patched \<lparr> save_diff_fn := SPath ''out.diff'' \<rparr>))
        \<and> dir_of (ex_world_patched \<lparr> save_diff_fn := SPath ''out.diff'' \<rparr>)
             [''modules'', ''nf-core'', ''fastqc''] ''fastqc.diff'' = Some ''edit''
        \<and> dir_of w' [''modules'', ''nf-core'', ''fastqc''] ''fastqc.diff'' = None
        \<and> dir_of w' [''modules'', ''nf-core'', ''fastqc''] ''main.nf'' = Some ''v1 edited''
        \<and> files w' ''out.diff'' = Some (RegularFile [''diff'', ''jsondiff'']))
   \<and> (\<exists>w'. update (Suc 0) ex_env_applies None ex_world_two = Some (Inr True, w')
        \<and> truthy_save_diff (save_diff_fn ex_world_two)
        \<and> installed w' = installed ex_world_two
        \<and> get_component_version (mj_disk ex_world_two) ''modules'' ''multiqc'' ''nfcore.git'' ''nf-core''
             = Some ''old000''
        \<and> get_component_version (mj_disk w') ''modules'' ''multiqc'' ''nfcore.git'' ''nf-core''
             = Some ''new999''
        \<and> dir_of w' [''modules'', ''nf-core'', ''multiqc''] ''main.nf'' = Some ''v1''
        \<and> files w' ''out.diff'' = Some (RegularFile [''diff'', ''diff'', ''jsondiff'']))"
proof (intro conjI)
  show "\<exists>w'. update (Suc 0) ex_env (Some ''fastqc'') (ex_world_patched \<lparr> save_diff_fn := SPath ''out.diff'' \<rparr>)
            = Some (Inr True, w')
        \<and> truthy_save_diff (save_diff_fn (ex_world_patched \<lparr> save_diff_fn := SPath ''out.diff'' \<rparr>))
        \<and> dir_of (ex_world_patched \<lparr> save_diff_fn := SPath ''out.diff'' \<rparr>)
             [''modules'', ''nf-core'', ''fastqc''] ''fastqc.diff'' = Some ''edit''
        \<and> dir_of w' [''modules'', ''nf-core'', ''fastqc''] ''fastqc.diff'' = None
        \<and> dir_of w' [''modules'', ''nf-core'', ''fastqc''] ''main.nf'' = Some ''v1 edited''
        \<and> files w' ''out.diff'' = Some (RegularFile [''diff'', ''jsondiff''])"
    by (simp add: ex_dry_patched_run dir_of_def ex_patched_installed del: update.simps)
next
  have v: "get_component_version
             ((mj_update_mem ex_json_two ''modules'' ex_repo ''multiqc'' ''new999'' ''modules'')
                \<lparr> patches := p \<rparr>) ''modules'' ''multiqc'' ''nfcore.git'' ''nf-core'' = Some ''new999''" for p
    using version_after_update [of ex_json_two "''modules''" ex_repo "''multiqc''" "''new999''" "''modules''"]
    by (simp add: version_patches_update ex_repo_fields)
  show "\<exists>w'. update (Suc 0) ex_env_applies None ex_world_two = Some (Inr True, w')
        \<and> truthy_save_diff (save_diff_fn ex_world_two)
        \<and> installed w' = installed ex_world_two
        \<and> get_component_version (mj_disk ex_world_two) ''modules'' ''multiqc'' ''nfcore.git'' ''nf-core''
             = Some ''old000''
        \<and> get_component_version (mj_disk w') ''modules'' ''multiqc'' ''nfcore.git'' ''nf-core''
             = Some ''new999''
        \<and> dir_of w' [''modules'', ''nf-core'', ''multiqc''] ''main.nf'' = Some ''v1''
        \<and> files w' ''out.diff'' = Some (RegularFile [''diff'', ''diff'', ''jsondiff''])"
    by (simp add: ex_two_run ex_two_fields ex_two_versions v dir_of_def del: update.simps)
qed

end
